theory Spec2Isabelle
  imports Main "HOL-Library.Word"
begin

unbundle bit_operations_syntax

section \<open>The RTP synchronizer of kms-core (kmsrtpsynchronizer.c)\<close>

text \<open>
  A shallow embedding of \<^verbatim>\<open>kms-core/src/gst-plugins/commons/kmsrtpsynchronizer.c\<close>.
  The private struct is a record, every function takes the record and returns the
  updated one, the timestamp written to the \<^verbatim>\<open>GstBuffer\<close> is returned next to it, and
  a \<^verbatim>\<open>GError\<close> is a value. The recursive mutex, the log calls and the CSV statistics
  file do not touch the fields modelled here and are left out.
\<close>

subsection \<open>Constants of GLib and GStreamer\<close>

type_synonym guint8 = "8 word"
type_synonym guint16 = "16 word"
type_synonym guint32 = "32 word"
type_synonym gint32 = "32 word"
type_synonym guint64 = "64 word"
type_synonym GstClockTime = "64 word"

text \<open>\<^verbatim>\<open>G_MAXUINT64\<close> is \<open>2^64 - 1\<close>; \<^verbatim>\<open>GST_CLOCK_TIME_NONE\<close> is \<^verbatim>\<open>((GstClockTime) -1)\<close>,
  the same bit pattern; \<^verbatim>\<open>GST_SECOND\<close> is \<open>10^9\<close> nanoseconds.\<close>

definition G_MAXUINT64 :: guint64 where
  "G_MAXUINT64 = 0xFFFFFFFFFFFFFFFF"

definition GST_CLOCK_TIME_NONE :: GstClockTime where
  "GST_CLOCK_TIME_NONE = 0xFFFFFFFFFFFFFFFF"

definition GST_CLOCK_TIME_IS_VALID :: "GstClockTime \<Rightarrow> bool" where
  "GST_CLOCK_TIME_IS_VALID t = (t \<noteq> GST_CLOCK_TIME_NONE)"

definition GST_SECOND :: int where
  "GST_SECOND = 1000000000"

text \<open>\<^verbatim>\<open>GST_CLOCK_DIFF (s, e)\<close> is \<^verbatim>\<open>(GstClockTimeDiff)((e) - (s))\<close>. The source stores it in
  a signed 64-bit variable and only ever compares it with, adds it to or subtracts it
  from a \<^verbatim>\<open>guint64\<close>; C converts it back to unsigned there, so the 64-bit pattern is
  all that matters.\<close>

definition GST_CLOCK_DIFF :: "GstClockTime \<Rightarrow> GstClockTime \<Rightarrow> guint64" where
  "GST_CLOCK_DIFF s e = e - s"

subsection \<open>Library functions the file calls\<close>

text \<open>Modelled from the spec: \<^verbatim>\<open>gst_util_uint64_scale\<close> and
  \<^verbatim>\<open>gst_util_uint64_scale_int\<close> are GStreamer library functions, not part of the
  sources. The spec gives their value as \<open>val * num / denom\<close> rounded down
  (\<open>|r - base_ext| * 1e9 / clock_rate\<close>, \<open>ntp * 10^9 / 2^32\<close>). The library documents
  that a quotient which does not fit 64 bits, and a call with a non-positive
  denominator, give \<^verbatim>\<open>G_MAXUINT64\<close>.\<close>

definition gst_util_uint64_scale :: "guint64 \<Rightarrow> int \<Rightarrow> int \<Rightarrow> guint64" where
  "gst_util_uint64_scale val num denom =
     (if denom \<le> 0 \<or> num < 0 then G_MAXUINT64
      else if uint val * num div denom > uint G_MAXUINT64 then G_MAXUINT64
      else word_of_int (uint val * num div denom))"

definition gst_util_uint64_scale_int :: "guint64 \<Rightarrow> int \<Rightarrow> int \<Rightarrow> guint64" where
  "gst_util_uint64_scale_int val num denom = gst_util_uint64_scale val num denom"

text \<open>Modelled from the spec: \<^verbatim>\<open>gst_rtp_buffer_ext_timestamp (&ext, timestamp)\<close> is a
  GStreamer library function, not part of the sources. Spec, section 4.1: if never
  called before (the stored counter is the unset sentinel the struct is initialised
  with), return the 32-bit value zero-extended and store it; otherwise compute the
  signed 32-bit difference between the new low 32 bits and the low 32 bits of the
  stored extended counter, add it to the stored counter (modulo \<open>2^64\<close>), store,
  return. The result is the pair (stored counter, returned value).\<close>

definition gst_rtp_buffer_ext_timestamp :: "guint64 \<Rightarrow> guint32 \<Rightarrow> guint64 \<times> guint64" where
  "gst_rtp_buffer_ext_timestamp exttimestamp timestamp =
     (if exttimestamp = GST_CLOCK_TIME_NONE then (ucast timestamp, ucast timestamp)
      else
        let diff = (scast (timestamp - (ucast exttimestamp :: guint32)) :: guint64);
            result = exttimestamp + diff
        in (result, result))"

subsection \<open>Data\<close>

datatype KmsRtpSyncError = KMS_RTP_SYNC_INVALID_DATA | KMS_RTP_SYNC_UNEXPECTED_ERROR

text \<open>\<^verbatim>\<open>struct _KmsRtpSynchronizerPrivate\<close>, without the mutexes and the statistics file.\<close>

record KmsRtpSynchronizerPrivate =
  feeded_sorted :: bool
  ssrc :: guint32
  pt :: gint32
  clock_rate :: gint32
  base_initiated :: bool
  base_initiated_logged :: bool
  base_ntp_time :: GstClockTime
  base_sync_time :: GstClockTime
  base_interpolate_initiated :: bool
  base_interpolate_ext_ts :: GstClockTime
  base_interpolate_pts :: GstClockTime
  rtp_ext_ts :: GstClockTime
  last_rtcp_ext_ts :: GstClockTime
  last_rtcp_ntp_time :: GstClockTime
  fs_last_rtp_ext_ts :: GstClockTime
  fs_last_pts :: GstClockTime

text \<open>A mapped RTP buffer: the \<^verbatim>\<open>GstBuffer\<close>'s timestamps and the header fields the
  synchronizer reads.\<close>

record GstRTPBuffer =
  buffer_pts :: GstClockTime
  buffer_dts :: GstClockTime
  rtp_ssrc :: guint32
  rtp_payload_type :: guint8
  rtp_timestamp :: guint32
  rtp_seq :: guint16

text \<open>An RTCP packet: a Sender Report with its sender info (ssrc, 64-bit fixed-point
  NTP time, RTP timestamp), or a packet of another type.\<close>

datatype GstRTCPPacket =
  GST_RTCP_TYPE_SR guint32 guint64 guint32
| GST_RTCP_TYPE_OTHER guint8

subsection \<open>Construction and configuration\<close>

text \<open>\<^verbatim>\<open>kms_rtp_synchronizer_init\<close> on the zero-filled instance that \<^verbatim>\<open>g_object_new\<close>
  allocates, then \<^verbatim>\<open>kms_rtp_synchronizer_new\<close> storing \<^verbatim>\<open>feeded_sorted\<close>.\<close>

definition kms_rtp_synchronizer_new :: "bool \<Rightarrow> KmsRtpSynchronizerPrivate" where
  "kms_rtp_synchronizer_new fs =
     \<lparr> feeded_sorted = fs, ssrc = 0, pt = 0, clock_rate = 0,
       base_initiated = False, base_initiated_logged = False,
       base_ntp_time = GST_CLOCK_TIME_NONE, base_sync_time = GST_CLOCK_TIME_NONE,
       base_interpolate_initiated = False,
       base_interpolate_ext_ts = GST_CLOCK_TIME_NONE,
       base_interpolate_pts = GST_CLOCK_TIME_NONE,
       rtp_ext_ts = GST_CLOCK_TIME_NONE,
       last_rtcp_ext_ts = GST_CLOCK_TIME_NONE,
       last_rtcp_ntp_time = GST_CLOCK_TIME_NONE,
       fs_last_rtp_ext_ts = GST_CLOCK_TIME_NONE,
       fs_last_pts = GST_CLOCK_TIME_NONE \<rparr>"

text \<open>\<^verbatim>\<open>kms_rtp_synchronizer_set_pt_clock_rate\<close>: the error, if any, and the state.\<close>

definition kms_rtp_synchronizer_set_pt_clock_rate ::
  "KmsRtpSynchronizerPrivate \<Rightarrow> gint32 \<Rightarrow> gint32 \<Rightarrow>
   KmsRtpSyncError option \<times> KmsRtpSynchronizerPrivate" where
  "kms_rtp_synchronizer_set_pt_clock_rate self new_pt new_clock_rate =
     (if sint new_clock_rate \<le> 0 then (Some KMS_RTP_SYNC_INVALID_DATA, self)
      else if clock_rate self \<noteq> 0 then (Some KMS_RTP_SYNC_INVALID_DATA, self)
      else (None, self\<lparr>pt := new_pt, clock_rate := new_clock_rate\<rparr>))"

subsection \<open>RTCP Sender Reports\<close>

text \<open>\<^verbatim>\<open>kms_rtp_synchronizer_process_rtcp_packet\<close>.\<close>

definition kms_rtp_synchronizer_process_rtcp_packet ::
  "KmsRtpSynchronizerPrivate \<Rightarrow> GstRTCPPacket \<Rightarrow> GstClockTime \<Rightarrow> KmsRtpSynchronizerPrivate" where
  "kms_rtp_synchronizer_process_rtcp_packet self packet current_time =
     (case packet of
        GST_RTCP_TYPE_OTHER ty \<Rightarrow> self
      | GST_RTCP_TYPE_SR rtcp_ssrc ntp_ts rtcp_ts \<Rightarrow>
          let ntp_time = gst_util_uint64_scale ntp_ts GST_SECOND 4294967296;
              s1 = (if \<not> base_initiated self
                    then self\<lparr>base_initiated := True, base_ntp_time := ntp_time,
                              base_sync_time := current_time\<rparr>
                    else self);
              (ext, res) = gst_rtp_buffer_ext_timestamp (rtp_ext_ts s1) rtcp_ts
          in s1\<lparr>rtp_ext_ts := ext, last_rtcp_ext_ts := res, last_rtcp_ntp_time := ntp_time\<rparr>)"

text \<open>\<^verbatim>\<open>kms_rtp_synchronizer_process_rtcp_buffer\<close>. The buffer is \<open>None\<close> when it cannot be
  mapped as RTCP, else the list of its packets with the buffer's DTS; only the first
  packet is looked at.\<close>

definition kms_rtp_synchronizer_process_rtcp_buffer ::
  "KmsRtpSynchronizerPrivate \<Rightarrow> (GstRTCPPacket list \<times> GstClockTime) option \<Rightarrow>
   KmsRtpSyncError option \<times> KmsRtpSynchronizerPrivate" where
  "kms_rtp_synchronizer_process_rtcp_buffer self buffer =
     (case buffer of
        None \<Rightarrow> (Some KMS_RTP_SYNC_UNEXPECTED_ERROR, self)
      | Some ([], dts) \<Rightarrow> (None, self)
      | Some (packet # rest, dts) \<Rightarrow>
          (None, kms_rtp_synchronizer_process_rtcp_packet self packet dts))"

subsection \<open>The PTS of an RTP packet\<close>

text \<open>\<^verbatim>\<open>kms_rtp_synchronizer_rtp_diff_full\<close>: the new value of the buffer's PTS, from the
  tracker's \<^verbatim>\<open>rtp_ext_ts\<close>, the PTS so far, and the two wrap flags.\<close>

definition kms_rtp_synchronizer_rtp_diff_full ::
  "KmsRtpSynchronizerPrivate \<Rightarrow> GstClockTime \<Rightarrow> gint32 \<Rightarrow> guint64 \<Rightarrow> bool \<Rightarrow> bool \<Rightarrow>
   GstClockTime" where
  "kms_rtp_synchronizer_rtp_diff_full self pts rate base_ext_ts wrapped_down wrapped_up =
     (if rtp_ext_ts self > base_ext_ts then
        let diff_rtp_ext_ts = rtp_ext_ts self - base_ext_ts;
            diff_rtp_time = gst_util_uint64_scale_int diff_rtp_ext_ts GST_SECOND (sint rate)
        in if wrapped_up then G_MAXUINT64
           else if wrapped_down \<and> diff_rtp_time < G_MAXUINT64 - pts then 0
           else if \<not> wrapped_down \<and> diff_rtp_time > G_MAXUINT64 - pts then G_MAXUINT64
           else pts + diff_rtp_time
      else if rtp_ext_ts self < base_ext_ts then
        let diff_rtp_ext_ts = base_ext_ts - rtp_ext_ts self;
            diff_rtp_time = gst_util_uint64_scale_int diff_rtp_ext_ts GST_SECOND (sint rate)
        in if wrapped_down then 0
           else if wrapped_up \<and> diff_rtp_time < pts then G_MAXUINT64
           else if \<not> wrapped_up \<and> diff_rtp_time > pts then 0
           else pts - diff_rtp_time
      else
        if wrapped_down then 0
        else if wrapped_up then G_MAXUINT64
        else pts)"

definition kms_rtp_synchronizer_rtp_diff ::
  "KmsRtpSynchronizerPrivate \<Rightarrow> GstClockTime \<Rightarrow> gint32 \<Rightarrow> guint64 \<Rightarrow> GstClockTime" where
  "kms_rtp_synchronizer_rtp_diff self pts rate base_ext_ts =
     kms_rtp_synchronizer_rtp_diff_full self pts rate base_ext_ts False False"

text \<open>Lines 514 to 529 of \<^verbatim>\<open>kms_rtp_synchronizer_process_rtp_buffer_mapped\<close>: the PTS
  starts at \<^verbatim>\<open>base_sync_time\<close> and is moved by the NTP time between the base Sender
  Report and the last one, with plain 64-bit arithmetic; the flags record that the
  addition or the subtraction went through \<open>2^64\<close> or through 0. The result is
  (PTS, wrapped_down, wrapped_up).\<close>

definition ntp_offset_step :: "KmsRtpSynchronizerPrivate \<Rightarrow> GstClockTime \<times> bool \<times> bool" where
  "ntp_offset_step self =
     (let pts = base_sync_time self in
      if last_rtcp_ntp_time self > base_ntp_time self then
        let ntp_time_diff = GST_CLOCK_DIFF (base_ntp_time self) (last_rtcp_ntp_time self)
        in (pts + ntp_time_diff, False, ntp_time_diff > G_MAXUINT64 - pts)
      else if last_rtcp_ntp_time self < base_ntp_time self then
        let ntp_time_diff = GST_CLOCK_DIFF (last_rtcp_ntp_time self) (base_ntp_time self)
        in (pts - ntp_time_diff, pts < ntp_time_diff, False)
      else (pts, False, False))"

text \<open>Lines 496 to 534: the PTS computation proper, for the extended timestamp
  \<open>ext\<close> of the packet and the PTS \<open>pts\<close> the buffer arrived with. Before the first
  Sender Report the first packet becomes the interpolation anchor and keeps its PTS;
  later ones are placed relative to it. After a Sender Report the PTS is computed
  from the anchors alone.\<close>

definition compute_pts ::
  "KmsRtpSynchronizerPrivate \<Rightarrow> GstClockTime \<Rightarrow> GstClockTime \<Rightarrow>
   KmsRtpSynchronizerPrivate \<times> GstClockTime" where
  "compute_pts self ext pts =
     (if \<not> base_initiated self then
        let s1 = self\<lparr>base_initiated_logged := True\<rparr> in
        if \<not> base_interpolate_initiated s1 then
          (s1\<lparr>base_interpolate_ext_ts := ext, base_interpolate_pts := pts,
               base_interpolate_initiated := True\<rparr>, pts)
        else
          (s1, kms_rtp_synchronizer_rtp_diff s1 (base_interpolate_pts s1) (clock_rate s1)
                 (base_interpolate_ext_ts s1))
      else
        let (pts1, wrapped_down, wrapped_up) = ntp_offset_step self
        in (self, kms_rtp_synchronizer_rtp_diff_full self pts1 (clock_rate self)
                    (last_rtcp_ext_ts self) wrapped_down wrapped_up))"

text \<open>Lines 536 to 561: in sorted mode a PTS below the last emitted one is replaced
  by it, and the packet's extended timestamp and PTS are recorded.\<close>

definition sorted_fix ::
  "KmsRtpSynchronizerPrivate \<Rightarrow> GstClockTime \<Rightarrow> GstClockTime \<Rightarrow>
   KmsRtpSynchronizerPrivate \<times> GstClockTime" where
  "sorted_fix self ext pts_current =
     (if feeded_sorted self then
        let pts_fixed = (if GST_CLOCK_TIME_IS_VALID (fs_last_pts self)
                            \<and> pts_current < fs_last_pts self
                         then fs_last_pts self else pts_current)
        in (self\<lparr>fs_last_rtp_ext_ts := ext, fs_last_pts := pts_fixed\<rparr>, pts_fixed)
      else (self, pts_current))"

text \<open>\<^verbatim>\<open>kms_rtp_synchronizer_process_rtp_buffer_mapped\<close>: the error set (if any; the
  function returns \<^verbatim>\<open>FALSE\<close> exactly when one is set), the state, and the PTS of the
  buffer after the call.\<close>

definition kms_rtp_synchronizer_process_rtp_buffer_mapped ::
  "KmsRtpSynchronizerPrivate \<Rightarrow> GstRTPBuffer \<Rightarrow>
   KmsRtpSyncError option \<times> KmsRtpSynchronizerPrivate \<times> GstClockTime" where
  "kms_rtp_synchronizer_process_rtp_buffer_mapped self buf =
     (if ssrc self \<noteq> 0 \<and> rtp_ssrc buf \<noteq> ssrc self
      then (Some KMS_RTP_SYNC_INVALID_DATA, self, buffer_pts buf)
      else
        let s1 = (if ssrc self = 0 then self\<lparr>ssrc := rtp_ssrc buf\<rparr> else self) in
        if uint (rtp_payload_type buf) \<noteq> sint (pt s1) \<or> sint (clock_rate s1) \<le> 0
        then (Some KMS_RTP_SYNC_INVALID_DATA, s1, buffer_pts buf)
        else
          let (ext, rtp_ext) = gst_rtp_buffer_ext_timestamp (rtp_ext_ts s1) (rtp_timestamp buf);
              s2 = s1\<lparr>rtp_ext_ts := ext\<rparr>;
              unsorted = feeded_sorted s2
                          \<and> GST_CLOCK_TIME_IS_VALID (fs_last_rtp_ext_ts s2)
                          \<and> rtp_ext < fs_last_rtp_ext_ts s2
          in
            if feeded_sorted s2 \<and> \<not> unsorted \<and> rtp_ext = fs_last_rtp_ext_ts s2
            then (None, s2,
                  if GST_CLOCK_TIME_IS_VALID (fs_last_pts s2) then fs_last_pts s2
                  else buffer_pts buf)
            else
              let s3 = (if unsorted then s2\<lparr>feeded_sorted := False\<rparr> else s2);
                  ret = (if unsorted then Some KMS_RTP_SYNC_INVALID_DATA else None);
                  (s4, pts4) = compute_pts s3 rtp_ext (buffer_pts buf);
                  (s5, pts5) = sorted_fix s4 rtp_ext pts4
              in (ret, s5, pts5))"

subsection \<open>Sequences of calls\<close>

text \<open>The calls a user of the synchronizer makes: configuration, an RTCP buffer, an
  RTP buffer that \<^verbatim>\<open>kms_rtp_synchronizer_process_rtp_buffer_writable\<close> could map (one it
  cannot map is answered with \<^verbatim>\<open>KMS_RTP_SYNC_UNEXPECTED_ERROR\<close> before the synchronizer
  is touched).\<close>

datatype event =
  SetPtClockRate gint32 gint32
| ProcessRtcp "(GstRTCPPacket list \<times> GstClockTime) option"
| ProcessRtp GstRTPBuffer

fun step :: "KmsRtpSynchronizerPrivate \<Rightarrow> event \<Rightarrow> KmsRtpSynchronizerPrivate" where
  "step self (SetPtClockRate p c) = snd (kms_rtp_synchronizer_set_pt_clock_rate self p c)"
| "step self (ProcessRtcp b) = snd (kms_rtp_synchronizer_process_rtcp_buffer self b)"
| "step self (ProcessRtp buf) = fst (snd (kms_rtp_synchronizer_process_rtp_buffer_mapped self buf))"

fun run :: "KmsRtpSynchronizerPrivate \<Rightarrow> event list \<Rightarrow> KmsRtpSynchronizerPrivate" where
  "run self [] = self"
| "run self (e # es) = run (step self e) es"

subsection \<open>Notions used to state the properties\<close>

text \<open>A packet passes the three checks at the head of
  \<^verbatim>\<open>kms_rtp_synchronizer_process_rtp_buffer_mapped\<close> (lines 427 to 463): its SSRC is the
  stored one or none is stored yet, its payload type is the configured one, and the
  clock rate is positive.\<close>

definition accepts :: "KmsRtpSynchronizerPrivate \<Rightarrow> GstRTPBuffer \<Rightarrow> bool" where
  "accepts self buf =
     ((ssrc self = 0 \<or> rtp_ssrc buf = ssrc self)
      \<and> uint (rtp_payload_type buf) = sint (pt self) \<and> 0 < sint (clock_rate self))"

text \<open>The extended timestamp the tracker gives the packet (line 468).\<close>

definition ext_of :: "KmsRtpSynchronizerPrivate \<Rightarrow> GstRTPBuffer \<Rightarrow> GstClockTime" where
  "ext_of self buf = snd (gst_rtp_buffer_ext_timestamp (rtp_ext_ts self) (rtp_timestamp buf))"

text \<open>The magnitude \<^verbatim>\<open>diff_rtp_time\<close> that \<^verbatim>\<open>kms_rtp_synchronizer_rtp_diff_full\<close> adds
  or subtracts (lines 333 to 335 and 354 to 356): the distance between the tracker's
  extended timestamp and \<open>base_ext_ts\<close>, in nanoseconds.\<close>

definition diff_rtp_time :: "KmsRtpSynchronizerPrivate \<Rightarrow> gint32 \<Rightarrow> guint64 \<Rightarrow> guint64" where
  "diff_rtp_time self rate base_ext_ts =
     (if rtp_ext_ts self > base_ext_ts
      then gst_util_uint64_scale_int (rtp_ext_ts self - base_ext_ts) GST_SECOND (sint rate)
      else gst_util_uint64_scale_int (base_ext_ts - rtp_ext_ts self) GST_SECOND (sint rate))"

text \<open>The values the synchronized regime aims at, as unbounded integers:
  \<^verbatim>\<open>base_sync_time\<close> moved by the NTP time between the base and the last Sender Report,
  and that moved by the signed magnitude above.\<close>

definition exact_ntp_pts :: "KmsRtpSynchronizerPrivate \<Rightarrow> int" where
  "exact_ntp_pts self =
     uint (base_sync_time self) + (uint (last_rtcp_ntp_time self) - uint (base_ntp_time self))"

definition exact_sync_pts :: "KmsRtpSynchronizerPrivate \<Rightarrow> int" where
  "exact_sync_pts self =
     exact_ntp_pts self +
     (if rtp_ext_ts self > last_rtcp_ext_ts self
      then uint (diff_rtp_time self (clock_rate self) (last_rtcp_ext_ts self))
      else if rtp_ext_ts self < last_rtcp_ext_ts self
      then - uint (diff_rtp_time self (clock_rate self) (last_rtcp_ext_ts self))
      else 0)"

text \<open>The saturation contract in the words of the spec's table (section 4.3), for an
  adjustment of magnitude \<open>d\<close> to the PTS \<open>p\<close>: an addition when \<open>add\<close> holds, a
  subtraction otherwise. The first four rows are the table's, the last is its
  "otherwise \<open>p \<plusminus> d\<close>".\<close>

definition spec_table_adjust :: "bool \<Rightarrow> guint64 \<Rightarrow> guint64 \<Rightarrow> bool \<Rightarrow> bool \<Rightarrow> int" where
  "spec_table_adjust add p d wrapped_down wrapped_up =
     (if add then
        (if uint d > 18446744073709551615 - uint p \<and> wrapped_up then 18446744073709551615
         else if wrapped_down \<and> uint d < 18446744073709551615 - uint p then 0
         else uint p + uint d)
      else
        (if uint d > uint p \<and> \<not> wrapped_up then 0
         else if wrapped_up \<and> uint d < uint p then 18446744073709551615
         else uint p - uint d))"

text \<open>Interpolation, before the first Sender Report. \<open>interpolate\<close> is the PTS that
  lines 509 to 511 compute for a packet with extended timestamp \<open>r\<close>;
  \<open>exact_interpolated_pts\<close> is the value the spec describes, as an unbounded integer:
  \<^verbatim>\<open>base_interpolate_pts\<close> plus the distance of \<open>r\<close> from \<^verbatim>\<open>base_interpolate_ext_ts\<close>
  in nanoseconds (\<open>|r - base| * 10^9 div clock_rate\<close>), with the sign of \<open>r - base\<close>.\<close>

definition interpolate :: "KmsRtpSynchronizerPrivate \<Rightarrow> GstClockTime \<Rightarrow> GstClockTime" where
  "interpolate self r =
     kms_rtp_synchronizer_rtp_diff (self\<lparr>rtp_ext_ts := r\<rparr>) (base_interpolate_pts self)
       (clock_rate self) (base_interpolate_ext_ts self)"

definition exact_interpolated_pts :: "KmsRtpSynchronizerPrivate \<Rightarrow> GstClockTime \<Rightarrow> int" where
  "exact_interpolated_pts self r =
     uint (base_interpolate_pts self)
     + sgn (uint r - uint (base_interpolate_ext_ts self))
       * (\<bar>uint r - uint (base_interpolate_ext_ts self)\<bar> * 1000000000
            div sint (clock_rate self))"

text \<open>What holds of every state reached from a new synchronizer, as long as no
  Sender Report was processed, in sorted mode and for a clock rate below \<open>10^9\<close>:
  before the first accepted packet nothing is recorded; after it, the recorded
  \<^verbatim>\<open>fs_last_pts\<close> is the interpolated PTS of the recorded \<^verbatim>\<open>fs_last_rtp_ext_ts\<close>.\<close>

definition interp_inv :: "KmsRtpSynchronizerPrivate \<Rightarrow> bool" where
  "interp_inv self =
     (base_initiated self \<or> \<not> feeded_sorted self \<or> 1000000000 \<le> sint (clock_rate self)
      \<or> (if base_interpolate_initiated self
          then 0 < sint (clock_rate self)
               \<and> uint (base_interpolate_ext_ts self) < 4294967296
               \<and> fs_last_pts self = interpolate self (fs_last_rtp_ext_ts self)
          else rtp_ext_ts self = GST_CLOCK_TIME_NONE
               \<and> fs_last_pts self = GST_CLOCK_TIME_NONE
               \<and> fs_last_rtp_ext_ts self = GST_CLOCK_TIME_NONE))"

text \<open>The PTS values that the successful calls of
  \<^verbatim>\<open>kms_rtp_synchronizer_process_rtp_buffer_mapped\<close> made in sorted mode write to their
  buffers, in the order of the calls.\<close>

fun emitted_sorted :: "KmsRtpSynchronizerPrivate \<Rightarrow> event list \<Rightarrow> GstClockTime list" where
  "emitted_sorted self [] = []"
| "emitted_sorted self (ProcessRtp buf # es) =
     (if fst (kms_rtp_synchronizer_process_rtp_buffer_mapped self buf) = None
         \<and> feeded_sorted self
      then snd (snd (kms_rtp_synchronizer_process_rtp_buffer_mapped self buf))
             # emitted_sorted (step self (ProcessRtp buf)) es
      else emitted_sorted (step self (ProcessRtp buf)) es)"
| "emitted_sorted self (e # es) = emitted_sorted (step self e) es"

text \<open>The extended timestamps the tracker returns for a sequence of 32-bit
  timestamps fed one after the other, from the stored counter \<open>e\<close>.\<close>

fun ext_timestamps :: "guint64 \<Rightarrow> guint32 list \<Rightarrow> guint64 list" where
  "ext_timestamps e [] = []"
| "ext_timestamps e (t # ts) =
     snd (gst_rtp_buffer_ext_timestamp e t)
       # ext_timestamps (fst (gst_rtp_buffer_ext_timestamp e t)) ts"

text \<open>A 32-bit sequence that ascends strictly, wraparound included: each sample is
  ahead of the one before it by more than 0 and less than \<open>2^31\<close> ticks, modulo
  \<open>2^32\<close>.\<close>

fun ascending32 :: "guint32 list \<Rightarrow> bool" where
  "ascending32 (a # b # ts) =
     (0 < uint (b - a) \<and> uint (b - a) < 2147483648 \<and> ascending32 (b # ts))"
| "ascending32 ts = True"

text \<open>The sequence of \<open>n\<close> timestamps that starts at \<open>t\<close> and advances by \<open>2^30\<close>
  ticks each time.\<close>

fun ramp :: "guint32 \<Rightarrow> nat \<Rightarrow> guint32 list" where
  "ramp t 0 = []"
| "ramp t (Suc n) = t # ramp (t + 1073741824) n"

text \<open>The same as 64-bit values: \<open>n\<close> values from \<open>e\<close> in steps of \<open>2^30\<close>, modulo
  \<open>2^64\<close>.\<close>

fun ramp64 :: "guint64 \<Rightarrow> nat \<Rightarrow> guint64 list" where
  "ramp64 e 0 = []"
| "ramp64 e (Suc n) = e # ramp64 (e + 1073741824) n"

text \<open>The packets of the examples: payload type 96, sequence number and DTS 0.\<close>

definition rtp_packet :: "guint32 \<Rightarrow> guint32 \<Rightarrow> GstClockTime \<Rightarrow> GstRTPBuffer" where
  "rtp_packet sr ts p =
     \<lparr> buffer_pts = p, buffer_dts = 0, rtp_ssrc = sr, rtp_payload_type = 96,
       rtp_timestamp = ts, rtp_seq = 0 \<rparr>"

section \<open>Properties\<close>

subsection \<open>What each function leaves alone\<close>

lemma ext_timestamp_same:
  "fst (gst_rtp_buffer_ext_timestamp e t) = snd (gst_rtp_buffer_ext_timestamp e t)"
  by (simp add: gst_rtp_buffer_ext_timestamp_def Let_def)

lemma learn_ssrc:
  "ssrc s = 0 \<or> rtp_ssrc buf = ssrc s \<Longrightarrow>
   (if ssrc s = 0 then s\<lparr>ssrc := rtp_ssrc buf\<rparr> else s) = s\<lparr>ssrc := rtp_ssrc buf\<rparr>"
  by auto

lemma compute_pts_frame:
  "pt (fst (compute_pts s r p)) = pt s"
  "clock_rate (fst (compute_pts s r p)) = clock_rate s"
  "ssrc (fst (compute_pts s r p)) = ssrc s"
  "feeded_sorted (fst (compute_pts s r p)) = feeded_sorted s"
  "base_initiated (fst (compute_pts s r p)) = base_initiated s"
  "base_ntp_time (fst (compute_pts s r p)) = base_ntp_time s"
  "base_sync_time (fst (compute_pts s r p)) = base_sync_time s"
  "last_rtcp_ext_ts (fst (compute_pts s r p)) = last_rtcp_ext_ts s"
  "last_rtcp_ntp_time (fst (compute_pts s r p)) = last_rtcp_ntp_time s"
  "rtp_ext_ts (fst (compute_pts s r p)) = rtp_ext_ts s"
  "fs_last_pts (fst (compute_pts s r p)) = fs_last_pts s"
  "fs_last_rtp_ext_ts (fst (compute_pts s r p)) = fs_last_rtp_ext_ts s"
  by (simp_all add: compute_pts_def Let_def split: prod.split)

lemma sorted_fix_frame:
  "pt (fst (sorted_fix s r p)) = pt s"
  "clock_rate (fst (sorted_fix s r p)) = clock_rate s"
  "ssrc (fst (sorted_fix s r p)) = ssrc s"
  "feeded_sorted (fst (sorted_fix s r p)) = feeded_sorted s"
  "base_initiated (fst (sorted_fix s r p)) = base_initiated s"
  "base_ntp_time (fst (sorted_fix s r p)) = base_ntp_time s"
  "base_sync_time (fst (sorted_fix s r p)) = base_sync_time s"
  "last_rtcp_ext_ts (fst (sorted_fix s r p)) = last_rtcp_ext_ts s"
  "last_rtcp_ntp_time (fst (sorted_fix s r p)) = last_rtcp_ntp_time s"
  "rtp_ext_ts (fst (sorted_fix s r p)) = rtp_ext_ts s"
  "base_interpolate_initiated (fst (sorted_fix s r p)) = base_interpolate_initiated s"
  "base_interpolate_ext_ts (fst (sorted_fix s r p)) = base_interpolate_ext_ts s"
  "base_interpolate_pts (fst (sorted_fix s r p)) = base_interpolate_pts s"
  by (simp_all add: sorted_fix_def Let_def)

subsection \<open>The three outcomes of processing an RTP packet\<close>

lemma rtp_reject_ssrc:
  "ssrc s \<noteq> 0 \<Longrightarrow> rtp_ssrc buf \<noteq> ssrc s \<Longrightarrow>
   kms_rtp_synchronizer_process_rtp_buffer_mapped s buf =
     (Some KMS_RTP_SYNC_INVALID_DATA, s, buffer_pts buf)"
  by (simp add: kms_rtp_synchronizer_process_rtp_buffer_mapped_def)

lemma rtp_reject_pt:
  "ssrc s = 0 \<or> rtp_ssrc buf = ssrc s \<Longrightarrow>
   uint (rtp_payload_type buf) \<noteq> sint (pt s) \<or> sint (clock_rate s) \<le> 0 \<Longrightarrow>
   kms_rtp_synchronizer_process_rtp_buffer_mapped s buf =
     (Some KMS_RTP_SYNC_INVALID_DATA, s\<lparr>ssrc := rtp_ssrc buf\<rparr>, buffer_pts buf)"
  by (auto simp add: kms_rtp_synchronizer_process_rtp_buffer_mapped_def Let_def)

lemma rtp_accept:
  assumes "accepts s buf"
  shows "kms_rtp_synchronizer_process_rtp_buffer_mapped s buf =
    (let r = ext_of s buf; s2 = s\<lparr>ssrc := rtp_ssrc buf, rtp_ext_ts := r\<rparr>;
         unsorted = (feeded_sorted s \<and> GST_CLOCK_TIME_IS_VALID (fs_last_rtp_ext_ts s)
                     \<and> r < fs_last_rtp_ext_ts s)
     in if feeded_sorted s \<and> \<not> unsorted \<and> r = fs_last_rtp_ext_ts s
        then (None, s2,
              if GST_CLOCK_TIME_IS_VALID (fs_last_pts s) then fs_last_pts s else buffer_pts buf)
        else let s3 = (if unsorted then s2\<lparr>feeded_sorted := False\<rparr> else s2);
                 c = compute_pts s3 r (buffer_pts buf);
                 f = sorted_fix (fst c) r (snd c)
             in (if unsorted then Some KMS_RTP_SYNC_INVALID_DATA else None, fst f, snd f))"
proof -
  have a: "ssrc s = 0 \<or> rtp_ssrc buf = ssrc s"
    and b: "uint (rtp_payload_type buf) = sint (pt s)" and c: "0 < sint (clock_rate s)"
    using assms by (auto simp: accepts_def)
  have l: "(if ssrc s = 0 then s\<lparr>ssrc := rtp_ssrc buf\<rparr> else s) = s\<lparr>ssrc := rtp_ssrc buf\<rparr>"
    using a by (rule learn_ssrc)
  have n: "\<not> (ssrc s \<noteq> 0 \<and> rtp_ssrc buf \<noteq> ssrc s)" using a by auto
  show ?thesis
    unfolding kms_rtp_synchronizer_process_rtp_buffer_mapped_def
    using b c
    apply (simp only: n if_False l Let_def)
    apply (simp add: ext_of_def ext_timestamp_same split_beta)
    done
qed

lemma rtp_reject:
  assumes "\<not> accepts s buf"
  shows "\<exists>e. kms_rtp_synchronizer_process_rtp_buffer_mapped s buf =
           (Some KMS_RTP_SYNC_INVALID_DATA, s\<lparr>ssrc := e\<rparr>, buffer_pts buf)
         \<and> (ssrc s \<noteq> 0 \<longrightarrow> e = ssrc s)"
proof (cases "ssrc s \<noteq> 0 \<and> rtp_ssrc buf \<noteq> ssrc s")
  case True
  then have "kms_rtp_synchronizer_process_rtp_buffer_mapped s buf =
      (Some KMS_RTP_SYNC_INVALID_DATA, s\<lparr>ssrc := ssrc s\<rparr>, buffer_pts buf)"
    by (simp add: rtp_reject_ssrc)
  then show ?thesis by blast
next
  case False
  then have a: "ssrc s = 0 \<or> rtp_ssrc buf = ssrc s" by auto
  with assms have "uint (rtp_payload_type buf) \<noteq> sint (pt s) \<or> sint (clock_rate s) \<le> 0"
    by (auto simp: accepts_def)
  from rtp_reject_pt [OF a this] show ?thesis using a by auto
qed

lemma rtp_frame:
  "pt (fst (snd (kms_rtp_synchronizer_process_rtp_buffer_mapped s buf))) = pt s"
  "clock_rate (fst (snd (kms_rtp_synchronizer_process_rtp_buffer_mapped s buf))) = clock_rate s"
  "base_initiated (fst (snd (kms_rtp_synchronizer_process_rtp_buffer_mapped s buf))) = base_initiated s"
  "base_ntp_time (fst (snd (kms_rtp_synchronizer_process_rtp_buffer_mapped s buf))) = base_ntp_time s"
  "base_sync_time (fst (snd (kms_rtp_synchronizer_process_rtp_buffer_mapped s buf))) = base_sync_time s"
  "last_rtcp_ext_ts (fst (snd (kms_rtp_synchronizer_process_rtp_buffer_mapped s buf))) = last_rtcp_ext_ts s"
  "last_rtcp_ntp_time (fst (snd (kms_rtp_synchronizer_process_rtp_buffer_mapped s buf))) = last_rtcp_ntp_time s"
proof -
  show "pt (fst (snd (kms_rtp_synchronizer_process_rtp_buffer_mapped s buf))) = pt s"
    using rtp_reject [of s buf]
    by (cases "accepts s buf") (auto simp add: rtp_accept Let_def compute_pts_frame sorted_fix_frame)
  show "clock_rate (fst (snd (kms_rtp_synchronizer_process_rtp_buffer_mapped s buf))) = clock_rate s"
    using rtp_reject [of s buf]
    by (cases "accepts s buf") (auto simp add: rtp_accept Let_def compute_pts_frame sorted_fix_frame)
  show "base_initiated (fst (snd (kms_rtp_synchronizer_process_rtp_buffer_mapped s buf))) = base_initiated s"
    using rtp_reject [of s buf]
    by (cases "accepts s buf") (auto simp add: rtp_accept Let_def compute_pts_frame sorted_fix_frame)
  show "base_ntp_time (fst (snd (kms_rtp_synchronizer_process_rtp_buffer_mapped s buf))) = base_ntp_time s"
    using rtp_reject [of s buf]
    by (cases "accepts s buf") (auto simp add: rtp_accept Let_def compute_pts_frame sorted_fix_frame)
  show "base_sync_time (fst (snd (kms_rtp_synchronizer_process_rtp_buffer_mapped s buf))) = base_sync_time s"
    using rtp_reject [of s buf]
    by (cases "accepts s buf") (auto simp add: rtp_accept Let_def compute_pts_frame sorted_fix_frame)
  show "last_rtcp_ext_ts (fst (snd (kms_rtp_synchronizer_process_rtp_buffer_mapped s buf))) = last_rtcp_ext_ts s"
    using rtp_reject [of s buf]
    by (cases "accepts s buf") (auto simp add: rtp_accept Let_def compute_pts_frame sorted_fix_frame)
  show "last_rtcp_ntp_time (fst (snd (kms_rtp_synchronizer_process_rtp_buffer_mapped s buf))) = last_rtcp_ntp_time s"
    using rtp_reject [of s buf]
    by (cases "accepts s buf") (auto simp add: rtp_accept Let_def compute_pts_frame sorted_fix_frame)
qed

lemma rtp_sorted_antitone:
  "feeded_sorted (fst (snd (kms_rtp_synchronizer_process_rtp_buffer_mapped s buf))) \<Longrightarrow> feeded_sorted s"
  using rtp_reject [of s buf]
  by (cases "accepts s buf") (auto simp add: rtp_accept Let_def compute_pts_frame sorted_fix_frame split: if_splits)

lemma rtp_ssrc_fixed:
  "ssrc s \<noteq> 0 \<Longrightarrow> ssrc (fst (snd (kms_rtp_synchronizer_process_rtp_buffer_mapped s buf))) = ssrc s"
  using rtp_reject [of s buf]
  by (cases "accepts s buf") (auto simp add: rtp_accept Let_def compute_pts_frame sorted_fix_frame accepts_def)

lemma rtcp_packet_frame:
  "pt (kms_rtp_synchronizer_process_rtcp_packet s p t) = pt s"
  "clock_rate (kms_rtp_synchronizer_process_rtcp_packet s p t) = clock_rate s"
  "ssrc (kms_rtp_synchronizer_process_rtcp_packet s p t) = ssrc s"
  "feeded_sorted (kms_rtp_synchronizer_process_rtcp_packet s p t) = feeded_sorted s"
  "fs_last_pts (kms_rtp_synchronizer_process_rtcp_packet s p t) = fs_last_pts s"
  "fs_last_rtp_ext_ts (kms_rtp_synchronizer_process_rtcp_packet s p t) = fs_last_rtp_ext_ts s"
  "base_interpolate_initiated (kms_rtp_synchronizer_process_rtcp_packet s p t) = base_interpolate_initiated s"
  "base_interpolate_ext_ts (kms_rtp_synchronizer_process_rtcp_packet s p t) = base_interpolate_ext_ts s"
  "base_interpolate_pts (kms_rtp_synchronizer_process_rtcp_packet s p t) = base_interpolate_pts s"
  by (simp_all add: kms_rtp_synchronizer_process_rtcp_packet_def Let_def split: GstRTCPPacket.split prod.split)

lemma rtcp_packet_base:
  "base_initiated s \<Longrightarrow> base_initiated (kms_rtp_synchronizer_process_rtcp_packet s p t)"
  "base_initiated s \<Longrightarrow> base_ntp_time (kms_rtp_synchronizer_process_rtcp_packet s p t) = base_ntp_time s"
  "base_initiated s \<Longrightarrow> base_sync_time (kms_rtp_synchronizer_process_rtcp_packet s p t) = base_sync_time s"
  by (simp_all add: kms_rtp_synchronizer_process_rtcp_packet_def Let_def split: GstRTCPPacket.split prod.split)

lemma set_pt_frame:
  "ssrc (snd (kms_rtp_synchronizer_set_pt_clock_rate s p c)) = ssrc s"
  "feeded_sorted (snd (kms_rtp_synchronizer_set_pt_clock_rate s p c)) = feeded_sorted s"
  "base_initiated (snd (kms_rtp_synchronizer_set_pt_clock_rate s p c)) = base_initiated s"
  "base_ntp_time (snd (kms_rtp_synchronizer_set_pt_clock_rate s p c)) = base_ntp_time s"
  "base_sync_time (snd (kms_rtp_synchronizer_set_pt_clock_rate s p c)) = base_sync_time s"
  "fs_last_pts (snd (kms_rtp_synchronizer_set_pt_clock_rate s p c)) = fs_last_pts s"
  "fs_last_rtp_ext_ts (snd (kms_rtp_synchronizer_set_pt_clock_rate s p c)) = fs_last_rtp_ext_ts s"
  by (simp_all add: kms_rtp_synchronizer_set_pt_clock_rate_def)

lemma set_pt_configured:
  "clock_rate s \<noteq> 0 \<Longrightarrow> kms_rtp_synchronizer_set_pt_clock_rate s p c = (Some KMS_RTP_SYNC_INVALID_DATA, s)"
  by (simp add: kms_rtp_synchronizer_set_pt_clock_rate_def)

lemma rtcp_buffer_snd:
  "snd (kms_rtp_synchronizer_process_rtcp_buffer s b) = s \<or>
   (\<exists>p t. snd (kms_rtp_synchronizer_process_rtcp_buffer s b) = kms_rtp_synchronizer_process_rtcp_packet s p t)"
  by (auto simp: kms_rtp_synchronizer_process_rtcp_buffer_def split: option.split list.split prod.split)

lemma step_configured:
  "clock_rate s \<noteq> 0 \<Longrightarrow> clock_rate (step s e) = clock_rate s \<and> pt (step s e) = pt s"
proof (cases e)
  case (SetPtClockRate p c)
  assume "clock_rate s \<noteq> 0"
  then show ?thesis using SetPtClockRate by (simp add: set_pt_configured)
next
  case (ProcessRtcp b)
  show ?thesis using rtcp_buffer_snd [of s b] ProcessRtcp by (auto simp: rtcp_packet_frame)
next
  case (ProcessRtp buf)
  then show ?thesis by (simp add: rtp_frame)
qed

lemma run_configured:
  "clock_rate s \<noteq> 0 \<Longrightarrow> clock_rate (run s es) = clock_rate s \<and> pt (run s es) = pt s"
proof (induction es arbitrary: s)
  case Nil
  show ?case by simp
next
  case (Cons e es)
  have "clock_rate (step s e) \<noteq> 0" using Cons.prems step_configured [of s e] by simp
  from Cons.IH [OF this] show ?case using step_configured [OF Cons.prems, of e] by simp
qed

lemma new_fields:
  "ssrc (kms_rtp_synchronizer_new b) = 0"
  "clock_rate (kms_rtp_synchronizer_new b) = 0"
  "feeded_sorted (kms_rtp_synchronizer_new b) = b"
  by (simp_all add: kms_rtp_synchronizer_new_def)

lemma rtp_reject_eq:
  assumes "\<not> accepts s buf"
  shows "kms_rtp_synchronizer_process_rtp_buffer_mapped s buf =
           (Some KMS_RTP_SYNC_INVALID_DATA,
            s\<lparr>ssrc := if ssrc s = 0 then rtp_ssrc buf else ssrc s\<rparr>, buffer_pts buf)"
proof (cases "ssrc s \<noteq> 0 \<and> rtp_ssrc buf \<noteq> ssrc s")
  case True
  then show ?thesis by (simp add: rtp_reject_ssrc)
next
  case False
  then have a: "ssrc s = 0 \<or> rtp_ssrc buf = ssrc s" by auto
  with assms have "uint (rtp_payload_type buf) \<noteq> sint (pt s) \<or> sint (clock_rate s) \<le> 0"
    by (auto simp: accepts_def)
  from rtp_reject_pt [OF a this] show ?thesis using a by auto
qed

lemma div_scale_le:
  fixes a :: int
  assumes "0 \<le> a" "k \<le> m" "0 < m"
  shows "a * k div m \<le> a"
proof -
  have "a * k \<le> a * m" using assms by (simp add: mult_left_mono)
  then have "a * k div m \<le> a * m div m" using assms(3) by (rule zdiv_mono1)
  then show ?thesis using assms(3) by simp
qed

lemma scale_ntp:
  "uint (gst_util_uint64_scale ntp GST_SECOND 4294967296) = uint ntp * 1000000000 div 4294967296"
proof -
  have lt: "uint ntp < 2 ^ 64" using uint_bounded [of ntp] by simp
  have ge: "0 \<le> uint ntp" by simp
  have q: "uint ntp * 1000000000 div 4294967296 \<le> uint ntp"
    using div_scale_le [OF ge, of 1000000000 4294967296] by simp
  have q0: "0 \<le> uint ntp * 1000000000 div 4294967296"
    using ge by (simp add: pos_imp_zdiv_nonneg_iff)
  have "uint (word_of_int (uint ntp * 1000000000 div 4294967296) :: 64 word)
          = uint ntp * 1000000000 div 4294967296"
    using q q0 lt by (simp only: uint_word_of_int) (simp add: take_bit_int_eq_self)
  then show ?thesis using q lt
    by (simp add: gst_util_uint64_scale_def GST_SECOND_def G_MAXUINT64_def)
qed

lemma step_base:
  assumes "base_initiated s"
  shows "base_initiated (step s e) \<and> base_ntp_time (step s e) = base_ntp_time s
         \<and> base_sync_time (step s e) = base_sync_time s"
proof (cases e)
  case (SetPtClockRate p c)
  then show ?thesis using assms by (simp add: set_pt_frame)
next
  case (ProcessRtcp b)
  show ?thesis using rtcp_buffer_snd [of s b] ProcessRtcp assms by (auto simp: rtcp_packet_base)
next
  case (ProcessRtp buf)
  then show ?thesis using assms by (simp add: rtp_frame)
qed

lemma run_base:
  "base_initiated s \<Longrightarrow>
   base_initiated (run s es) \<and> base_ntp_time (run s es) = base_ntp_time s
   \<and> base_sync_time (run s es) = base_sync_time s"
proof (induction es arbitrary: s)
  case Nil
  then show ?case by simp
next
  case (Cons e es)
  from step_base [OF Cons.prems, of e] Cons.IH [of "step s e"] show ?case by simp
qed

lemma step_sorted:
  "\<not> feeded_sorted s \<Longrightarrow> \<not> feeded_sorted (step s e)"
proof (cases e)
  case (SetPtClockRate p c)
  assume "\<not> feeded_sorted s"
  then show ?thesis using SetPtClockRate by (simp add: set_pt_frame)
next
  case (ProcessRtcp b)
  assume "\<not> feeded_sorted s"
  then show ?thesis using rtcp_buffer_snd [of s b] ProcessRtcp by (auto simp: rtcp_packet_frame)
next
  case (ProcessRtp buf)
  assume "\<not> feeded_sorted s"
  then show ?thesis using ProcessRtp rtp_sorted_antitone [of s buf] by auto
qed

lemma run_sorted:
  "\<not> feeded_sorted s \<Longrightarrow> \<not> feeded_sorted (run s es)"
proof (induction es arbitrary: s)
  case Nil
  then show ?case by simp
next
  case (Cons e es)
  from step_sorted [OF Cons.prems, of e] Cons.IH [of "step s e"] show ?case by simp
qed

lemma rtp_accept_unsorted:
  assumes "accepts s buf" "\<not> feeded_sorted s"
  shows "kms_rtp_synchronizer_process_rtp_buffer_mapped s buf =
    (None, compute_pts (s\<lparr>ssrc := rtp_ssrc buf, rtp_ext_ts := ext_of s buf\<rparr>) (ext_of s buf)
             (buffer_pts buf))"
  using assms(2) by (simp add: rtp_accept [OF assms(1)] Let_def sorted_fix_def compute_pts_frame)

text \<open>The definitions a concrete run unfolds.\<close>

lemmas run_defs =
  rtp_packet_def kms_rtp_synchronizer_new_def kms_rtp_synchronizer_set_pt_clock_rate_def
  kms_rtp_synchronizer_process_rtp_buffer_mapped_def
  kms_rtp_synchronizer_process_rtcp_buffer_def kms_rtp_synchronizer_process_rtcp_packet_def
  gst_rtp_buffer_ext_timestamp_def GST_CLOCK_TIME_NONE_def GST_CLOCK_TIME_IS_VALID_def
  GST_CLOCK_DIFF_def compute_pts_def sorted_fix_def ntp_offset_step_def
  kms_rtp_synchronizer_rtp_diff_def kms_rtp_synchronizer_rtp_diff_full_def
  gst_util_uint64_scale_int_def gst_util_uint64_scale_def GST_SECOND_def G_MAXUINT64_def
  accepts_def ext_of_def Let_def

lemma rtp_sorted_ok_fs:
  assumes acc: "accepts s buf" and fs: "feeded_sorted s"
    and ok: "kms_rtp_synchronizer_process_rtp_buffer_mapped s buf = (None, s1, p1)"
  shows "feeded_sorted s1 \<and> fs_last_rtp_ext_ts s1 = ext_of s buf \<and> rtp_ext_ts s1 = ext_of s buf
         \<and> ssrc s1 = rtp_ssrc buf \<and> pt s1 = pt s \<and> clock_rate s1 = clock_rate s
         \<and> (GST_CLOCK_TIME_IS_VALID (fs_last_pts s1) \<longrightarrow> fs_last_pts s1 = p1)"
proof (cases "GST_CLOCK_TIME_IS_VALID (fs_last_rtp_ext_ts s) \<and> ext_of s buf < fs_last_rtp_ext_ts s")
  case True
  then show ?thesis using ok fs by (simp add: rtp_accept [OF acc] Let_def)
next
  case False
  show ?thesis
  proof (cases "ext_of s buf = fs_last_rtp_ext_ts s")
    case True
    then show ?thesis using ok fs False
      by (auto simp add: rtp_accept [OF acc] Let_def)
  next
    case ne: False
    then show ?thesis using ok fs False
      by (auto simp add: rtp_accept [OF acc] Let_def sorted_fix_def compute_pts_frame)
  qed
qed

lemma rtp_learns_ssrc:
  "ssrc s = 0 \<Longrightarrow>
   ssrc (fst (snd (kms_rtp_synchronizer_process_rtp_buffer_mapped s buf))) = rtp_ssrc buf"
  using rtp_reject_eq [of s buf]
  by (cases "accepts s buf")
     (auto simp add: rtp_accept Let_def compute_pts_frame sorted_fix_frame)

lemma step_ssrc: "ssrc s \<noteq> 0 \<Longrightarrow> ssrc (step s e) = ssrc s"
proof (cases e)
  case (SetPtClockRate p c)
  then show ?thesis by (simp add: set_pt_frame)
next
  case (ProcessRtcp b)
  show ?thesis using rtcp_buffer_snd [of s b] ProcessRtcp by (auto simp: rtcp_packet_frame)
next
  case (ProcessRtp buf)
  assume "ssrc s \<noteq> 0"
  then show ?thesis using ProcessRtp by (simp add: rtp_ssrc_fixed)
qed

lemma run_ssrc: "ssrc s \<noteq> 0 \<Longrightarrow> ssrc (run s es) = ssrc s"
proof (induction es arbitrary: s)
  case Nil
  show ?case by simp
next
  case (Cons e es)
  from step_ssrc [OF Cons.prems, of e] Cons.prems Cons.IH [of "step s e"] show ?case by simp
qed

subsection \<open>Saturating arithmetic on 64-bit words\<close>

lemma uint_max64: "uint G_MAXUINT64 = 18446744073709551615"
  by (simp add: G_MAXUINT64_def)

lemma uint_lt64: "uint (p :: guint64) < 18446744073709551616"
  using uint_bounded [of p] by simp

lemma uint_max_minus: "uint (G_MAXUINT64 - p) = 18446744073709551615 - uint p"
proof -
  have "uint p \<le> uint G_MAXUINT64" using uint_lt64 [of p] by (simp add: uint_max64)
  then have "uint (G_MAXUINT64 - p) = uint G_MAXUINT64 - uint p" by (simp only: uint_sub_lem)
  then show ?thesis by (simp add: uint_max64)
qed

lemma uint_add64:
  fixes p d :: guint64
  shows "uint (p + d) = (if uint p + uint d < 18446744073709551616 then uint p + uint d
                         else uint p + uint d - 18446744073709551616)"
  using uint_plus_if' [of p d] by simp

lemma uint_sub64:
  fixes p d :: guint64
  shows "uint (p - d) = (if uint d \<le> uint p then uint p - uint d
                         else uint p - uint d + 18446744073709551616)"
  using uint_sub_if' [of p d] by simp

lemma diff_full_add:
  assumes "rtp_ext_ts s > b"
  shows "uint (kms_rtp_synchronizer_rtp_diff_full s p rate b wd wu) =
    (if wu then 18446744073709551615
     else if wd then
       (if uint (diff_rtp_time s rate b) < 18446744073709551615 - uint p then 0
        else if uint (diff_rtp_time s rate b) = 18446744073709551615 - uint p then 18446744073709551615
        else uint p + uint (diff_rtp_time s rate b) - 18446744073709551616)
     else min 18446744073709551615 (uint p + uint (diff_rtp_time s rate b)))"
  using assms uint_lt64 [of p] uint_lt64 [of "diff_rtp_time s rate b"]
  by (simp add: kms_rtp_synchronizer_rtp_diff_full_def diff_rtp_time_def Let_def
        word_less_def uint_max_minus uint_max64 uint_add64)

lemma diff_full_sub:
  assumes "rtp_ext_ts s < b"
  shows "uint (kms_rtp_synchronizer_rtp_diff_full s p rate b wd wu) =
    (if wd then 0
     else if wu then
       (if uint (diff_rtp_time s rate b) < uint p then 18446744073709551615
        else if uint (diff_rtp_time s rate b) = uint p then 0
        else uint p - uint (diff_rtp_time s rate b) + 18446744073709551616)
     else max 0 (uint p - uint (diff_rtp_time s rate b)))"
  using assms uint_lt64 [of p] uint_lt64 [of "diff_rtp_time s rate b"]
  by (simp add: kms_rtp_synchronizer_rtp_diff_full_def diff_rtp_time_def Let_def
        word_less_def uint_max_minus uint_max64 uint_sub64)

lemma diff_full_eq:
  assumes "rtp_ext_ts s = b"
  shows "uint (kms_rtp_synchronizer_rtp_diff_full s p rate b wd wu) =
    (if wd then 0 else if wu then 18446744073709551615 else uint p)"
  using assms
  by (simp add: kms_rtp_synchronizer_rtp_diff_full_def uint_max64)


lemma ntp_step_int:
  "fst (snd (ntp_offset_step s)) = (exact_ntp_pts s < 0)"
  "snd (snd (ntp_offset_step s)) = (18446744073709551615 < exact_ntp_pts s)"
  "uint (fst (ntp_offset_step s)) =
     (if exact_ntp_pts s < 0 then exact_ntp_pts s + 18446744073709551616
      else if 18446744073709551615 < exact_ntp_pts s then exact_ntp_pts s - 18446744073709551616
      else exact_ntp_pts s)"
proof -
  let ?B = "uint (base_sync_time s)" and ?L = "uint (last_rtcp_ntp_time s)"
    and ?N = "uint (base_ntp_time s)"
  have b: "0 \<le> ?B" "?B < 18446744073709551616" "0 \<le> ?L" "?L < 18446744073709551616"
    "0 \<le> ?N" "?N < 18446744073709551616"
    using uint_lt64 [of "base_sync_time s"] uint_lt64 [of "last_rtcp_ntp_time s"]
      uint_lt64 [of "base_ntp_time s"] by simp_all
  consider (gt) "?N < ?L" | (lt) "?L < ?N" | (eq) "?L = ?N" by linarith
  then have "fst (snd (ntp_offset_step s)) = (exact_ntp_pts s < 0)
    \<and> snd (snd (ntp_offset_step s)) = (18446744073709551615 < exact_ntp_pts s)
    \<and> uint (fst (ntp_offset_step s)) =
     (if exact_ntp_pts s < 0 then exact_ntp_pts s + 18446744073709551616
      else if 18446744073709551615 < exact_ntp_pts s then exact_ntp_pts s - 18446744073709551616
      else exact_ntp_pts s)"
  proof cases
    case gt
    then have w: "base_ntp_time s < last_rtcp_ntp_time s" by (simp add: word_less_def)
    have d: "uint (last_rtcp_ntp_time s - base_ntp_time s) = ?L - ?N"
      using gt by (simp add: uint_sub64)
    have st: "ntp_offset_step s =
        (base_sync_time s + (last_rtcp_ntp_time s - base_ntp_time s), False,
         last_rtcp_ntp_time s - base_ntp_time s > G_MAXUINT64 - base_sync_time s)"
      using w by (simp add: ntp_offset_step_def Let_def GST_CLOCK_DIFF_def)
    show ?thesis
      unfolding st exact_ntp_pts_def
      by (simp add: word_less_def uint_max_minus uint_add64 d; (insert b gt, linarith))
  next
    case lt
    then have w: "last_rtcp_ntp_time s < base_ntp_time s"
      and nw: "\<not> base_ntp_time s < last_rtcp_ntp_time s" by (simp_all add: word_less_def)
    have d: "uint (base_ntp_time s - last_rtcp_ntp_time s) = ?N - ?L"
      using lt by (simp add: uint_sub64)
    have st: "ntp_offset_step s =
        (base_sync_time s - (base_ntp_time s - last_rtcp_ntp_time s),
         base_sync_time s < base_ntp_time s - last_rtcp_ntp_time s, False)"
      using w nw by (simp add: ntp_offset_step_def Let_def GST_CLOCK_DIFF_def)
    show ?thesis
      unfolding st exact_ntp_pts_def
      by (simp add: word_less_def uint_sub64 d; (insert b lt, linarith))
  next
    case eq
    then have nw: "\<not> last_rtcp_ntp_time s < base_ntp_time s"
      "\<not> base_ntp_time s < last_rtcp_ntp_time s" by (simp_all add: word_less_def)
    have st: "ntp_offset_step s = (base_sync_time s, False, False)"
      using nw by (simp add: ntp_offset_step_def Let_def)
    show ?thesis
      unfolding st exact_ntp_pts_def using b eq by simp
  qed
  then show "fst (snd (ntp_offset_step s)) = (exact_ntp_pts s < 0)"
  "snd (snd (ntp_offset_step s)) = (18446744073709551615 < exact_ntp_pts s)"
  "uint (fst (ntp_offset_step s)) =
     (if exact_ntp_pts s < 0 then exact_ntp_pts s + 18446744073709551616
      else if 18446744073709551615 < exact_ntp_pts s then exact_ntp_pts s - 18446744073709551616
      else exact_ntp_pts s)" by simp_all
qed


lemma compute_pts_sync:
  "base_initiated s \<Longrightarrow>
   snd (compute_pts s ext pts) =
     kms_rtp_synchronizer_rtp_diff_full s (fst (ntp_offset_step s)) (clock_rate s)
       (last_rtcp_ext_ts s) (fst (snd (ntp_offset_step s))) (snd (snd (ntp_offset_step s)))"
  by (simp add: compute_pts_def split_beta)

lemma sync_pts_exact:
  assumes init: "base_initiated s"
    and hi: "\<not> (exact_sync_pts s = 18446744073709551616 \<and> rtp_ext_ts s < last_rtcp_ext_ts s)"
    and lo: "\<not> (exact_sync_pts s = - 1 \<and> last_rtcp_ext_ts s < rtp_ext_ts s)"
  shows "uint (snd (compute_pts s ext pts)) =
           max 0 (min 18446744073709551615 (exact_sync_pts s))"
proof -
  let ?D = "uint (diff_rtp_time s (clock_rate s) (last_rtcp_ext_ts s))"
  let ?T = "exact_ntp_pts s"
  have d: "0 \<le> ?D" "?D < 18446744073709551616"
    using uint_lt64 [of "diff_rtp_time s (clock_rate s) (last_rtcp_ext_ts s)"] by simp_all
  have t: "- 18446744073709551616 < ?T" "?T < 36893488147419103232"
    using uint_lt64 [of "base_sync_time s"] uint_lt64 [of "last_rtcp_ntp_time s"]
      uint_lt64 [of "base_ntp_time s"]
      uint_ge_0 [of "base_sync_time s"] uint_ge_0 [of "last_rtcp_ntp_time s"]
      uint_ge_0 [of "base_ntp_time s"]
    unfolding exact_ntp_pts_def by linarith+
  consider (add) "last_rtcp_ext_ts s < rtp_ext_ts s" | (sub) "rtp_ext_ts s < last_rtcp_ext_ts s"
    | (eq) "rtp_ext_ts s = last_rtcp_ext_ts s" by (meson linorder_less_linear)
  then show ?thesis
  proof cases
    case add
    then have n: "\<not> rtp_ext_ts s < last_rtcp_ext_ts s" by simp
    have e: "exact_sync_pts s = ?T + ?D" using add by (simp add: exact_sync_pts_def)
    from lo add have lo': "?T + ?D \<noteq> - 1" by (simp add: e)
    show ?thesis
      unfolding compute_pts_sync [OF init] diff_full_add [OF add] ntp_step_int e
      by (simp; (insert d t lo', linarith))
  next
    case sub
    then have n: "\<not> last_rtcp_ext_ts s < rtp_ext_ts s" by simp
    have e: "exact_sync_pts s = ?T - ?D" using sub n by (simp add: exact_sync_pts_def)
    from hi sub have hi': "?T - ?D \<noteq> 18446744073709551616" by (simp add: e)
    show ?thesis
      unfolding compute_pts_sync [OF init] diff_full_sub [OF sub] ntp_step_int e
      by (simp; (insert d t hi', linarith))
  next
    case eq
    have e: "exact_sync_pts s = ?T" using eq by (simp add: exact_sync_pts_def)
    show ?thesis
      unfolding compute_pts_sync [OF init] diff_full_eq [OF eq] ntp_step_int e
      by (simp; (insert d t, linarith))
  qed
qed

subsection \<open>Interpolation\<close>

lemma scale_int_val:
  assumes "0 < d"
  shows "uint (gst_util_uint64_scale_int x GST_SECOND d) =
           min 18446744073709551615 (uint x * 1000000000 div d)"
proof -
  have nn: "0 \<le> uint x * 1000000000 div d"
    using assms by (simp add: pos_imp_zdiv_nonneg_iff)
  show ?thesis
  proof (cases "uint x * 1000000000 div d > 18446744073709551615")
    case True
    then show ?thesis using assms
      by (simp add: gst_util_uint64_scale_int_def gst_util_uint64_scale_def GST_SECOND_def uint_max64)
  next
    case False
    then have "uint (word_of_int (uint x * 1000000000 div d) :: 64 word)
          = uint x * 1000000000 div d"
      using nn by (simp only: uint_word_of_int) (simp add: take_bit_int_eq_self)
    then show ?thesis using assms False
      by (simp add: gst_util_uint64_scale_int_def gst_util_uint64_scale_def GST_SECOND_def uint_max64)
  qed
qed

lemma interpolate_int:
  assumes "0 < sint (clock_rate s)"
  shows "uint (interpolate s r) =
    (if base_interpolate_ext_ts s < r
     then min 18446744073709551615 (uint (base_interpolate_pts s)
            + min 18446744073709551615
                ((uint r - uint (base_interpolate_ext_ts s)) * 1000000000 div sint (clock_rate s)))
     else if r < base_interpolate_ext_ts s
     then max 0 (uint (base_interpolate_pts s)
            - min 18446744073709551615
                ((uint (base_interpolate_ext_ts s) - uint r) * 1000000000 div sint (clock_rate s)))
     else uint (base_interpolate_pts s))"
proof -
  let ?s = "s\<lparr>rtp_ext_ts := r\<rparr>"
  let ?b = "base_interpolate_ext_ts s"
  consider (add) "?b < r" | (sub) "r < ?b" | (eq) "r = ?b" by (meson linorder_less_linear)
  then show ?thesis
  proof cases
    case add
    then have a: "?b < rtp_ext_ts ?s" by simp
    have le: "uint ?b \<le> uint r" using add by (simp add: word_less_def)
    have d: "uint (diff_rtp_time ?s (clock_rate s) ?b) =
        min 18446744073709551615 ((uint r - uint ?b) * 1000000000 div sint (clock_rate s))"
      using add le by (simp add: diff_rtp_time_def scale_int_val [OF assms] uint_sub64)
    show ?thesis
      unfolding interpolate_def kms_rtp_synchronizer_rtp_diff_def diff_full_add [OF a] d
      using add by simp
  next
    case sub
    then have a: "rtp_ext_ts ?s < ?b" by simp
    have le: "uint r \<le> uint ?b" and n: "\<not> ?b < r" using sub by (simp_all add: word_less_def)
    have d: "uint (diff_rtp_time ?s (clock_rate s) ?b) =
        min 18446744073709551615 ((uint ?b - uint r) * 1000000000 div sint (clock_rate s))"
      using sub le n by (simp add: diff_rtp_time_def scale_int_val [OF assms] uint_sub64)
    show ?thesis
      unfolding interpolate_def kms_rtp_synchronizer_rtp_diff_def diff_full_sub [OF a] d
      using sub n by simp
  next
    case eq
    then have a: "rtp_ext_ts ?s = ?b" by simp
    show ?thesis
      unfolding interpolate_def kms_rtp_synchronizer_rtp_diff_def diff_full_eq [OF a]
      using eq by simp
  qed
qed


lemma scaled_mono:
  fixes x y c :: int
  assumes "0 < c" "x \<le> y"
  shows "x * 1000000000 div c \<le> y * 1000000000 div c"
  using assms by (intro zdiv_mono1) simp_all

lemma scaled_nonneg:
  fixes x c :: int
  assumes "0 < c" "0 \<le> x"
  shows "0 \<le> x * 1000000000 div c"
  using assms by (simp add: pos_imp_zdiv_nonneg_iff)

lemma interpolate_int_add:
  assumes "0 < sint (clock_rate s)" "base_interpolate_ext_ts s < r"
  shows "uint (interpolate s r) =
     min 18446744073709551615 (uint (base_interpolate_pts s)
            + min 18446744073709551615
                ((uint r - uint (base_interpolate_ext_ts s)) * 1000000000 div sint (clock_rate s)))"
  unfolding interpolate_int [OF assms(1)] using assms(2) by (simp only: if_True)

lemma interpolate_int_sub:
  assumes "0 < sint (clock_rate s)" "r < base_interpolate_ext_ts s"
  shows "uint (interpolate s r) =
     max 0 (uint (base_interpolate_pts s)
            - min 18446744073709551615
                ((uint (base_interpolate_ext_ts s) - uint r) * 1000000000 div sint (clock_rate s)))"
proof -
  have n: "\<not> base_interpolate_ext_ts s < r" using assms(2) by simp
  show ?thesis
    unfolding interpolate_int [OF assms(1)] using assms(2) n by (simp only: if_True if_False)
qed

lemma interpolate_int_eq:
  assumes "0 < sint (clock_rate s)" "r = base_interpolate_ext_ts s"
  shows "uint (interpolate s r) = uint (base_interpolate_pts s)"
  unfolding interpolate_int [OF assms(1)] using assms(2) by simp

lemma clamp_add:
  fixes P g :: int
  assumes "0 \<le> P" "P \<le> 18446744073709551615" "0 \<le> g"
  shows "min 18446744073709551615 (P + min 18446744073709551615 g)
         = max 0 (min 18446744073709551615 (P + g))"
  using assms by (simp add: min_def max_def)

lemma clamp_sub:
  fixes P g :: int
  assumes "0 \<le> P" "P \<le> 18446744073709551615" "0 \<le> g"
  shows "max 0 (P - min 18446744073709551615 g)
         = max 0 (min 18446744073709551615 (P - g))"
  using assms by (simp add: min_def max_def)

lemma clamp_mono_add:
  fixes P g g' :: int
  assumes "g \<le> g'"
  shows "min 18446744073709551615 (P + min 18446744073709551615 g)
         \<le> min 18446744073709551615 (P + min 18446744073709551615 g')"
  using assms by (simp add: min_def)

lemma clamp_mono_sub:
  fixes P g g' :: int
  assumes "g' \<le> g"
  shows "max 0 (P - min 18446744073709551615 g) \<le> max 0 (P - min 18446744073709551615 g')"
  using assms by (simp add: min_def max_def)

lemma clamp_mono_cross:
  fixes P g g' :: int
  assumes "0 \<le> P" "P \<le> 18446744073709551615" "0 \<le> g" "0 \<le> g'"
  shows "max 0 (P - min 18446744073709551615 g) \<le> P"
    and "P \<le> min 18446744073709551615 (P + min 18446744073709551615 g')"
  using assms by (simp_all add: min_def max_def)

lemma interpolate_mono:
  assumes c: "0 < sint (clock_rate s)" and le: "r \<le> r'"
  shows "interpolate s r \<le> interpolate s r'"
proof -
  let ?b = "base_interpolate_ext_ts s"
  let ?B = "uint (base_interpolate_ext_ts s)" and ?P = "uint (base_interpolate_pts s)"
  let ?c = "sint (clock_rate s)"
  have R: "uint r \<le> uint r'" using le by (simp add: word_le_def)
  have P: "0 \<le> ?P" "?P \<le> 18446744073709551615"
    using uint_lt64 [of "base_interpolate_pts s"] by simp_all
  have "uint (interpolate s r) \<le> uint (interpolate s r')"
  proof (cases "?b < r")
    case True
    then have t': "?b < r'" using le by simp
    have "(uint r - ?B) * 1000000000 div ?c \<le> (uint r' - ?B) * 1000000000 div ?c"
      using c R by (intro scaled_mono) simp_all
    then show ?thesis
      unfolding interpolate_int_add [OF c True] interpolate_int_add [OF c t']
      by (rule clamp_mono_add)
  next
    case nadd: False
    show ?thesis
    proof (cases "r < ?b")
      case sub: True
      have g: "0 \<le> (?B - uint r) * 1000000000 div ?c"
        using sub c by (intro scaled_nonneg) (simp_all add: word_less_def)
      show ?thesis
      proof (cases "?b < r'")
        case True
        have g': "0 \<le> (uint r' - ?B) * 1000000000 div ?c"
          using True c by (intro scaled_nonneg) (simp_all add: word_less_def)
        from clamp_mono_cross [OF P g g'] show ?thesis
          unfolding interpolate_int_sub [OF c sub] interpolate_int_add [OF c True]
          by (rule order_trans)
      next
        case False
        show ?thesis
        proof (cases "r' < ?b")
          case True
          have "(?B - uint r') * 1000000000 div ?c \<le> (?B - uint r) * 1000000000 div ?c"
            using c R by (intro scaled_mono) simp_all
          then show ?thesis
            unfolding interpolate_int_sub [OF c sub] interpolate_int_sub [OF c True]
            by (rule clamp_mono_sub)
        next
          case f2: False
          with False have e: "r' = ?b" by simp
          from clamp_mono_cross(1) [OF P g P(1)] show ?thesis
            unfolding interpolate_int_sub [OF c sub] interpolate_int_eq [OF c e] .
        qed
      qed
    next
      case False
      with nadd have e: "r = ?b" by simp
      show ?thesis
      proof (cases "?b < r'")
        case True
        have g': "0 \<le> (uint r' - ?B) * 1000000000 div ?c"
          using True c by (intro scaled_nonneg) (simp_all add: word_less_def)
        from clamp_mono_cross(2) [OF P P(1) g'] show ?thesis
          unfolding interpolate_int_eq [OF c e] interpolate_int_add [OF c True] .
      next
        case False
        with le e have e': "r' = ?b" by simp
        show ?thesis unfolding interpolate_int_eq [OF c e] interpolate_int_eq [OF c e'] by simp
      qed
    qed
  qed
  then show ?thesis by (simp add: word_le_def)
qed

lemma interpolate_none:
  assumes c: "0 < sint (clock_rate s)" "sint (clock_rate s) < 1000000000"
    and b: "uint (base_interpolate_ext_ts s) < 4294967296"
  shows "interpolate s GST_CLOCK_TIME_NONE = GST_CLOCK_TIME_NONE"
proof -
  let ?B = "uint (base_interpolate_ext_ts s)" and ?P = "uint (base_interpolate_pts s)"
  let ?c = "sint (clock_rate s)"
  have P: "0 \<le> ?P" "?P \<le> 18446744073709551615"
    using uint_lt64 [of "base_interpolate_pts s"] by simp_all
  have n: "uint GST_CLOCK_TIME_NONE = 18446744073709551615" by (simp add: GST_CLOCK_TIME_NONE_def)
  have lt: "base_interpolate_ext_ts s < GST_CLOCK_TIME_NONE"
    using b by (simp add: word_less_def n)
  have "18446744073709551615 * ?c \<le> (18446744073709551615 - ?B) * 1000000000"
    using c b by (simp add: left_diff_distrib)
  then have "18446744073709551615 * ?c div ?c \<le> (18446744073709551615 - ?B) * 1000000000 div ?c"
    using c(1) by (rule zdiv_mono1)
  then have g: "18446744073709551615 \<le> (18446744073709551615 - ?B) * 1000000000 div ?c"
    using c(1) by simp
  have "min 18446744073709551615 (?P + min 18446744073709551615
          ((18446744073709551615 - ?B) * 1000000000 div ?c)) = 18446744073709551615"
    using g P by (simp only: min_def) simp
  then have "uint (interpolate s GST_CLOCK_TIME_NONE) = 18446744073709551615"
    unfolding interpolate_int_add [OF c(1) lt] n .
  then have "uint (interpolate s GST_CLOCK_TIME_NONE) = uint GST_CLOCK_TIME_NONE" by (simp add: n)
  then show ?thesis by (simp only: word_uint_eq_iff)
qed

lemma interpolate_exact:
  assumes c: "0 < sint (clock_rate s)"
  shows "uint (interpolate s r) =
           max 0 (min 18446744073709551615 (exact_interpolated_pts s r))"
proof -
  let ?b = "base_interpolate_ext_ts s"
  let ?B = "uint (base_interpolate_ext_ts s)" and ?P = "uint (base_interpolate_pts s)"
  let ?c = "sint (clock_rate s)"
  have P: "0 \<le> ?P" "?P \<le> 18446744073709551615"
    using uint_lt64 [of "base_interpolate_pts s"] by simp_all
  consider (add) "?b < r" | (sub) "r < ?b" | (eq) "r = ?b" by (meson linorder_less_linear)
  then show ?thesis
  proof cases
    case add
    then have lt: "?B < uint r" by (simp add: word_less_def)
    have g: "0 \<le> (uint r - ?B) * 1000000000 div ?c"
      using lt c by (intro scaled_nonneg) simp_all
    have x: "exact_interpolated_pts s r = ?P + (uint r - ?B) * 1000000000 div ?c"
      using lt unfolding exact_interpolated_pts_def by simp
    show ?thesis unfolding interpolate_int_add [OF c add] x
      using P g by (rule clamp_add)
  next
    case sub
    then have lt: "uint r < ?B" by (simp add: word_less_def)
    have g: "0 \<le> (?B - uint r) * 1000000000 div ?c"
      using lt c by (intro scaled_nonneg) simp_all
    have a: "\<bar>uint r - ?B\<bar> = ?B - uint r" using lt by simp
    have sg: "sgn (uint r - ?B) = - 1" using lt by simp
    have x: "exact_interpolated_pts s r = ?P - (?B - uint r) * 1000000000 div ?c"
      unfolding exact_interpolated_pts_def a sg by simp
    show ?thesis unfolding interpolate_int_sub [OF c sub] x
      using P g by (rule clamp_sub)
  next
    case eq
    have x: "exact_interpolated_pts s r = ?P"
      using eq by (simp add: exact_interpolated_pts_def)
    show ?thesis unfolding interpolate_int_eq [OF c eq] x
      using P by simp
  qed
qed

lemma diff_full_cong:
  "rtp_ext_ts s = rtp_ext_ts s' \<Longrightarrow>
   kms_rtp_synchronizer_rtp_diff_full s p c b wd wu =
   kms_rtp_synchronizer_rtp_diff_full s' p c b wd wu"
  by (simp add: kms_rtp_synchronizer_rtp_diff_full_def)

lemma interpolate_cong:
  "base_interpolate_pts s = base_interpolate_pts s' \<Longrightarrow> clock_rate s = clock_rate s' \<Longrightarrow>
   base_interpolate_ext_ts s = base_interpolate_ext_ts s' \<Longrightarrow>
   interpolate s r = interpolate s' r"
  unfolding interpolate_def kms_rtp_synchronizer_rtp_diff_def
  by (simp add: diff_full_cong [of "s\<lparr>rtp_ext_ts := r\<rparr>" "s'\<lparr>rtp_ext_ts := r\<rparr>"])

lemma compute_pts_interp:
  assumes "\<not> base_initiated s" "base_interpolate_initiated s" "rtp_ext_ts s = r"
  shows "compute_pts s r pts = (s\<lparr>base_initiated_logged := True\<rparr>, interpolate s r)"
proof -
  have "kms_rtp_synchronizer_rtp_diff_full (s\<lparr>base_initiated_logged := True\<rparr>)
          (base_interpolate_pts s) (clock_rate s) (base_interpolate_ext_ts s) False False
      = kms_rtp_synchronizer_rtp_diff_full (s\<lparr>rtp_ext_ts := r\<rparr>)
          (base_interpolate_pts s) (clock_rate s) (base_interpolate_ext_ts s) False False"
    using assms(3) by (intro diff_full_cong) simp
  then show ?thesis using assms(1,2)
    by (simp add: compute_pts_def Let_def interpolate_def kms_rtp_synchronizer_rtp_diff_def)
qed

lemma compute_pts_first:
  assumes "\<not> base_initiated s" "\<not> base_interpolate_initiated s"
  shows "compute_pts s r pts =
    (s\<lparr>base_initiated_logged := True, base_interpolate_ext_ts := r,
        base_interpolate_pts := pts, base_interpolate_initiated := True\<rparr>, pts)"
  using assms by (simp add: compute_pts_def Let_def)

lemma interpolate_base:
  assumes "0 < sint (clock_rate s)" "r = base_interpolate_ext_ts s"
  shows "interpolate s r = base_interpolate_pts s"
  using interpolate_int_eq [OF assms] by (simp only: word_uint_eq_iff)

lemma ext_first: "ext_of s buf = ucast (rtp_timestamp buf)" if "rtp_ext_ts s = GST_CLOCK_TIME_NONE"
  using that by (simp add: ext_of_def gst_rtp_buffer_ext_timestamp_def)

lemma ucast32_lt: "uint (ucast (t :: guint32) :: guint64) < 4294967296"
  using uint_bounded [of t] by (simp add: uint_up_ucast is_up)


lemma rtp_interp_summary:
  assumes acc: "accepts s buf" and ni: "\<not> base_initiated s"
    and ii: "base_interpolate_initiated s"
  shows "base_interpolate_initiated (fst (snd (kms_rtp_synchronizer_process_rtp_buffer_mapped s buf)))
    \<and> base_interpolate_ext_ts (fst (snd (kms_rtp_synchronizer_process_rtp_buffer_mapped s buf))) = base_interpolate_ext_ts s
    \<and> base_interpolate_pts (fst (snd (kms_rtp_synchronizer_process_rtp_buffer_mapped s buf))) = base_interpolate_pts s
    \<and> (\<not> feeded_sorted s \<longrightarrow>
          snd (snd (kms_rtp_synchronizer_process_rtp_buffer_mapped s buf))
            = interpolate s (ext_of s buf))
    \<and> (feeded_sorted s \<and> GST_CLOCK_TIME_IS_VALID (fs_last_rtp_ext_ts s)
          \<and> ext_of s buf < fs_last_rtp_ext_ts s \<longrightarrow>
          snd (snd (kms_rtp_synchronizer_process_rtp_buffer_mapped s buf))
            = interpolate s (ext_of s buf)
          \<and> \<not> feeded_sorted (fst (snd (kms_rtp_synchronizer_process_rtp_buffer_mapped s buf))))
    \<and> (feeded_sorted s \<and> ext_of s buf = fs_last_rtp_ext_ts s \<longrightarrow>
          fs_last_pts (fst (snd (kms_rtp_synchronizer_process_rtp_buffer_mapped s buf))) = fs_last_pts s
          \<and> fs_last_rtp_ext_ts (fst (snd (kms_rtp_synchronizer_process_rtp_buffer_mapped s buf))) = fs_last_rtp_ext_ts s
          \<and> snd (snd (kms_rtp_synchronizer_process_rtp_buffer_mapped s buf))
              = (if GST_CLOCK_TIME_IS_VALID (fs_last_pts s) then fs_last_pts s
                 else buffer_pts buf))
    \<and> (feeded_sorted s
          \<and> \<not> (GST_CLOCK_TIME_IS_VALID (fs_last_rtp_ext_ts s)
                \<and> ext_of s buf < fs_last_rtp_ext_ts s)
          \<and> ext_of s buf \<noteq> fs_last_rtp_ext_ts s \<longrightarrow>
          fs_last_rtp_ext_ts (fst (snd (kms_rtp_synchronizer_process_rtp_buffer_mapped s buf))) = ext_of s buf
          \<and> fs_last_pts (fst (snd (kms_rtp_synchronizer_process_rtp_buffer_mapped s buf)))
              = snd (snd (kms_rtp_synchronizer_process_rtp_buffer_mapped s buf))
          \<and> snd (snd (kms_rtp_synchronizer_process_rtp_buffer_mapped s buf))
              = (if GST_CLOCK_TIME_IS_VALID (fs_last_pts s)
                    \<and> interpolate s (ext_of s buf) < fs_last_pts s
                 then fs_last_pts s else interpolate s (ext_of s buf)))"
proof -
  let ?r = "ext_of s buf"
  let ?s2 = "s\<lparr>ssrc := rtp_ssrc buf, rtp_ext_ts := ?r\<rparr>"
  let ?s3 = "?s2\<lparr>feeded_sorted := False\<rparr>"
  have i2: "interpolate ?s2 ?r = interpolate s ?r" "interpolate ?s3 ?r = interpolate s ?r"
    by (rule interpolate_cong; simp)+
  have c2: "compute_pts ?s2 ?r (buffer_pts buf)
      = (?s2\<lparr>base_initiated_logged := True\<rparr>, interpolate s ?r)"
    using compute_pts_interp [of ?s2 ?r "buffer_pts buf"] ni ii by (simp add: i2)
  have c3: "compute_pts ?s3 ?r (buffer_pts buf)
      = (?s3\<lparr>base_initiated_logged := True\<rparr>, interpolate s ?r)"
    using compute_pts_interp [of ?s3 ?r "buffer_pts buf"] ni ii by (simp add: i2)
  show ?thesis
    using ii by (simp add: rtp_accept [OF acc] Let_def c2 c3 sorted_fix_def)
qed


lemma interp_no_clamp:
  assumes c: "0 < sint (clock_rate s)" "sint (clock_rate s) < 1000000000"
    and b: "uint (base_interpolate_ext_ts s) < 4294967296"
    and inv: "fs_last_pts s = interpolate s (fs_last_rtp_ext_ts s)"
    and nreg: "\<not> (GST_CLOCK_TIME_IS_VALID (fs_last_rtp_ext_ts s) \<and> r < fs_last_rtp_ext_ts s)"
  shows "\<not> (GST_CLOCK_TIME_IS_VALID (fs_last_pts s) \<and> interpolate s r < fs_last_pts s)"
proof (cases "fs_last_rtp_ext_ts s = GST_CLOCK_TIME_NONE")
  case True
  then have "fs_last_pts s = GST_CLOCK_TIME_NONE"
    using inv interpolate_none [OF c b] by simp
  then show ?thesis by (simp add: GST_CLOCK_TIME_IS_VALID_def)
next
  case False
  then have "fs_last_rtp_ext_ts s \<le> r" using nreg by (simp add: GST_CLOCK_TIME_IS_VALID_def)
  from interpolate_mono [OF c(1) this] show ?thesis using inv by (simp add: not_less)
qed

lemma new_interp_inv: "interp_inv (kms_rtp_synchronizer_new fs)"
  by (simp add: interp_inv_def kms_rtp_synchronizer_new_def)

lemma rtp_interp_inv:
  assumes inv: "interp_inv s"
  shows "interp_inv (step s (ProcessRtp buf))"
proof (cases "base_initiated s \<or> \<not> feeded_sorted s \<or> 1000000000 \<le> sint (clock_rate s)")
  case True
  then have "base_initiated (step s (ProcessRtp buf)) \<or> \<not> feeded_sorted (step s (ProcessRtp buf))
      \<or> 1000000000 \<le> sint (clock_rate (step s (ProcessRtp buf)))"
    using rtp_sorted_antitone [of s buf] by (auto simp add: rtp_frame)
  then show ?thesis by (auto simp add: interp_inv_def)
next
  case main: False
  then have ni: "\<not> base_initiated s" and fs: "feeded_sorted s"
    and c2: "sint (clock_rate s) < 1000000000" by auto
  show ?thesis
  proof (cases "accepts s buf")
    case False
    from rtp_reject_eq [OF this]
    have st: "step s (ProcessRtp buf) = s\<lparr>ssrc := if ssrc s = 0 then rtp_ssrc buf else ssrc s\<rparr>"
      by simp
    have "interpolate (step s (ProcessRtp buf)) (fs_last_rtp_ext_ts s)
        = interpolate s (fs_last_rtp_ext_ts s)"
      unfolding st by (rule interpolate_cong) simp_all
    then show ?thesis using inv main unfolding interp_inv_def st by auto
  next
    case acc: True
    then have c: "0 < sint (clock_rate s)" by (simp add: accepts_def)
    let ?s' = "fst (snd (kms_rtp_synchronizer_process_rtp_buffer_mapped s buf))"
    let ?r = "ext_of s buf"
    have se: "step s (ProcessRtp buf) = ?s'" by simp
    have fr: "base_initiated ?s' = base_initiated s" "clock_rate ?s' = clock_rate s"
      by (simp_all add: rtp_frame)
    show ?thesis
    proof (cases "base_interpolate_initiated s")
      case ii: True
      with inv main have b: "uint (base_interpolate_ext_ts s) < 4294967296"
        and f: "fs_last_pts s = interpolate s (fs_last_rtp_ext_ts s)"
        by (simp_all add: interp_inv_def)
      note sm = rtp_interp_summary [OF acc ni ii]
      have ic: "interpolate ?s' x = interpolate s x" for x
        by (rule interpolate_cong) (simp_all add: sm fr)
      consider (reg) "GST_CLOCK_TIME_IS_VALID (fs_last_rtp_ext_ts s) \<and> ?r < fs_last_rtp_ext_ts s"
        | (dup) "?r = fs_last_rtp_ext_ts s"
        | (new) "\<not> (GST_CLOCK_TIME_IS_VALID (fs_last_rtp_ext_ts s) \<and> ?r < fs_last_rtp_ext_ts s)"
            "?r \<noteq> fs_last_rtp_ext_ts s" by blast
      then show ?thesis
      proof cases
        case reg
        with sm fs have "\<not> feeded_sorted ?s'" by blast
        then show ?thesis unfolding se by (simp add: interp_inv_def)
      next
        case dup
        with sm fs have "fs_last_pts ?s' = fs_last_pts s"
          "fs_last_rtp_ext_ts ?s' = fs_last_rtp_ext_ts s" by blast+
        then show ?thesis unfolding se interp_inv_def using sm c b f ic fr by simp
      next
        case new
        from interp_no_clamp [OF c c2 b f new(1)]
        have nc: "\<not> (GST_CLOCK_TIME_IS_VALID (fs_last_pts s) \<and> interpolate s ?r < fs_last_pts s)" .
        from sm fs new have "fs_last_rtp_ext_ts ?s' = ?r"
          "fs_last_pts ?s' = snd (snd (kms_rtp_synchronizer_process_rtp_buffer_mapped s buf))"
          "snd (snd (kms_rtp_synchronizer_process_rtp_buffer_mapped s buf))
              = (if GST_CLOCK_TIME_IS_VALID (fs_last_pts s)
                    \<and> interpolate s (ext_of s buf) < fs_last_pts s
                 then fs_last_pts s else interpolate s (ext_of s buf))" by blast+
        with nc have "fs_last_rtp_ext_ts ?s' = ?r" "fs_last_pts ?s' = interpolate s ?r" by auto
        then show ?thesis unfolding se interp_inv_def using sm c b ic fr by simp
      qed
    next
      case nii: False
      with inv main have e: "rtp_ext_ts s = GST_CLOCK_TIME_NONE"
        "fs_last_pts s = GST_CLOCK_TIME_NONE" "fs_last_rtp_ext_ts s = GST_CLOCK_TIME_NONE"
        by (simp_all add: interp_inv_def)
      have r: "?r = ucast (rtp_timestamp buf)" using e(1) by (rule ext_first)
      have rlt: "uint ?r < 4294967296" unfolding r by (rule ucast32_lt)
      then have rn: "?r \<noteq> GST_CLOCK_TIME_NONE" by (auto simp: GST_CLOCK_TIME_NONE_def)
      let ?s2 = "s\<lparr>ssrc := rtp_ssrc buf, rtp_ext_ts := ?r\<rparr>"
      have cf: "compute_pts ?s2 ?r (buffer_pts buf) =
        (?s2\<lparr>base_initiated_logged := True, base_interpolate_ext_ts := ?r,
            base_interpolate_pts := buffer_pts buf, base_interpolate_initiated := True\<rparr>,
         buffer_pts buf)"
        using ni nii by (intro compute_pts_first) simp_all
      have st: "?s' = ?s2\<lparr>base_initiated_logged := True, base_interpolate_ext_ts := ?r,
            base_interpolate_pts := buffer_pts buf, base_interpolate_initiated := True,
            fs_last_rtp_ext_ts := ?r, fs_last_pts := buffer_pts buf\<rparr>"
        using fs e rn
        by (simp add: rtp_accept [OF acc] Let_def cf sorted_fix_def GST_CLOCK_TIME_IS_VALID_def)
      have "interpolate ?s' ?r = base_interpolate_pts ?s'"
        by (rule interpolate_base) (simp_all add: st c)
      then show ?thesis unfolding se interp_inv_def using c rlt by (simp add: st)
    qed
  qed
qed


lemma set_pt_interp_inv:
  assumes inv: "interp_inv s"
  shows "interp_inv (step s (SetPtClockRate p c))"
proof (cases "sint c \<le> 0 \<or> clock_rate s \<noteq> 0")
  case True
  then have "step s (SetPtClockRate p c) = s"
    by (auto simp add: kms_rtp_synchronizer_set_pt_clock_rate_def)
  then show ?thesis using inv by simp
next
  case False
  then have z: "clock_rate s = 0"
    and st: "step s (SetPtClockRate p c) = s\<lparr>pt := p, clock_rate := c\<rparr>"
    by (auto simp add: kms_rtp_synchronizer_set_pt_clock_rate_def)
  show ?thesis using inv z unfolding st interp_inv_def by auto
qed

lemma rtcp_interp_inv:
  assumes inv: "interp_inv s"
  shows "interp_inv (step s (ProcessRtcp b))"
proof -
  have "step s (ProcessRtcp b) = s \<or> base_initiated (step s (ProcessRtcp b))"
    by (auto simp add: kms_rtp_synchronizer_process_rtcp_buffer_def
          kms_rtp_synchronizer_process_rtcp_packet_def Let_def
        split: option.split list.split prod.split GstRTCPPacket.split)
  then show ?thesis using inv by (auto simp add: interp_inv_def)
qed

lemma step_interp_inv: "interp_inv s \<Longrightarrow> interp_inv (step s e)"
  by (cases e) (simp_all only: set_pt_interp_inv rtcp_interp_inv rtp_interp_inv)

lemma run_interp_inv: "interp_inv s \<Longrightarrow> interp_inv (run s es)"
  by (induction es arbitrary: s) (simp_all add: step_interp_inv del: step.simps)

lemma interpolated_emitted:
  assumes acc: "accepts s buf" and ni: "\<not> base_initiated s"
    and ii: "base_interpolate_initiated s"
    and inv: "feeded_sorted s \<longrightarrow>
        sint (clock_rate s) < 1000000000
        \<and> uint (base_interpolate_ext_ts s) < 4294967296
        \<and> fs_last_pts s = interpolate s (fs_last_rtp_ext_ts s)"
    and v: "feeded_sorted s \<longrightarrow> GST_CLOCK_TIME_IS_VALID (interpolate s (ext_of s buf))"
  shows "snd (snd (kms_rtp_synchronizer_process_rtp_buffer_mapped s buf))
           = interpolate s (ext_of s buf)"
proof (cases "feeded_sorted s")
  case False
  then show ?thesis using rtp_interp_summary [OF acc ni ii] by blast
next
  case fs: True
  from acc have c: "0 < sint (clock_rate s)" by (simp add: accepts_def)
  from inv fs have c2: "sint (clock_rate s) < 1000000000"
    and b: "uint (base_interpolate_ext_ts s) < 4294967296"
    and f: "fs_last_pts s = interpolate s (fs_last_rtp_ext_ts s)" by simp_all
  note sm = rtp_interp_summary [OF acc ni ii]
  let ?r = "ext_of s buf"
  consider (reg) "GST_CLOCK_TIME_IS_VALID (fs_last_rtp_ext_ts s) \<and> ?r < fs_last_rtp_ext_ts s"
    | (dup) "?r = fs_last_rtp_ext_ts s"
    | (new) "\<not> (GST_CLOCK_TIME_IS_VALID (fs_last_rtp_ext_ts s) \<and> ?r < fs_last_rtp_ext_ts s)"
        "?r \<noteq> fs_last_rtp_ext_ts s" by blast
  then show ?thesis
  proof cases
    case reg
    with sm fs show ?thesis by blast
  next
    case dup
    with sm fs have "snd (snd (kms_rtp_synchronizer_process_rtp_buffer_mapped s buf))
              = (if GST_CLOCK_TIME_IS_VALID (fs_last_pts s) then fs_last_pts s
                 else buffer_pts buf)" by blast
    then show ?thesis using f v fs dup by simp
  next
    case new
    from interp_no_clamp [OF c c2 b f new(1)]
    have nc: "\<not> (GST_CLOCK_TIME_IS_VALID (fs_last_pts s) \<and> interpolate s ?r < fs_last_pts s)" .
    from sm fs new have "snd (snd (kms_rtp_synchronizer_process_rtp_buffer_mapped s buf))
              = (if GST_CLOCK_TIME_IS_VALID (fs_last_pts s)
                    \<and> interpolate s (ext_of s buf) < fs_last_pts s
                 then fs_last_pts s else interpolate s (ext_of s buf))" by blast
    with nc show ?thesis by auto
  qed
qed

subsection \<open>Sorted mode over sequences of calls\<close>

lemma emitted_unsorted: "\<not> feeded_sorted s \<Longrightarrow> emitted_sorted s es = []"
proof (induction es arbitrary: s)
  case Nil
  show ?case by simp
next
  case (Cons e es)
  have "\<not> feeded_sorted (step s e)" using Cons.prems by (rule step_sorted)
  then have "emitted_sorted (step s e) es = []" by (rule Cons.IH)
  then show ?case using Cons.prems by (cases e) simp_all
qed

lemma rtp_sorted_step:
  assumes fs: "feeded_sorted s" and v: "GST_CLOCK_TIME_IS_VALID (fs_last_pts s)"
  shows "(fst (kms_rtp_synchronizer_process_rtp_buffer_mapped s buf) = None
          \<and> feeded_sorted (step s (ProcessRtp buf))
          \<and> fs_last_pts s \<le> snd (snd (kms_rtp_synchronizer_process_rtp_buffer_mapped s buf))
          \<and> fs_last_pts (step s (ProcessRtp buf))
               = snd (snd (kms_rtp_synchronizer_process_rtp_buffer_mapped s buf)))
       \<or> (fst (kms_rtp_synchronizer_process_rtp_buffer_mapped s buf) \<noteq> None
          \<and> (feeded_sorted (step s (ProcessRtp buf)) \<longrightarrow>
                fs_last_pts (step s (ProcessRtp buf)) = fs_last_pts s))"
proof (cases "accepts s buf")
  case False
  from rtp_reject_eq [OF this] show ?thesis by simp
next
  case acc: True
  show ?thesis
  proof (cases "GST_CLOCK_TIME_IS_VALID (fs_last_rtp_ext_ts s) \<and> ext_of s buf < fs_last_rtp_ext_ts s")
    case True
    then show ?thesis using fs
      by (simp add: rtp_accept [OF acc] Let_def sorted_fix_def compute_pts_frame)
  next
    case nreg: False
    show ?thesis
    proof (cases "ext_of s buf = fs_last_rtp_ext_ts s")
      case True
      then show ?thesis using fs v nreg
        by (auto simp add: rtp_accept [OF acc] Let_def)
    next
      case False
      then show ?thesis using fs v nreg
        by (auto simp add: rtp_accept [OF acc] Let_def sorted_fix_def compute_pts_frame)
    qed
  qed
qed

lemma emitted_sorted_mono:
  "(feeded_sorted s \<longrightarrow> GST_CLOCK_TIME_IS_VALID (fs_last_pts s)) \<Longrightarrow>
   \<forall>p \<in> set (emitted_sorted s es). GST_CLOCK_TIME_IS_VALID p \<Longrightarrow>
   sorted (emitted_sorted s es)
   \<and> (feeded_sorted s \<longrightarrow> (\<forall>p \<in> set (emitted_sorted s es). fs_last_pts s \<le> p))"
proof (induction es arbitrary: s)
  case Nil
  show ?case by simp
next
  case (Cons e es)
  show ?case
  proof (cases "feeded_sorted s")
    case False
    then show ?thesis by (simp add: emitted_unsorted)
  next
    case fs: True
    with Cons.prems have v: "GST_CLOCK_TIME_IS_VALID (fs_last_pts s)" by simp
    show ?thesis
    proof (cases e)
      case (SetPtClockRate p c)
      then have em: "emitted_sorted s (e # es) = emitted_sorted (step s e) es" by simp
      have eqs: "fs_last_pts (step s e) = fs_last_pts s" "feeded_sorted (step s e) = feeded_sorted s"
        using SetPtClockRate by (simp_all add: set_pt_frame)
      from Cons.IH [of "step s e"] Cons.prems fs v show ?thesis
        unfolding em eqs by simp
    next
      case (ProcessRtcp b)
      then have em: "emitted_sorted s (e # es) = emitted_sorted (step s e) es" by simp
      have eqs: "fs_last_pts (step s e) = fs_last_pts s" "feeded_sorted (step s e) = feeded_sorted s"
        using ProcessRtcp rtcp_buffer_snd [of s b] by (auto simp: rtcp_packet_frame)
      from Cons.IH [of "step s e"] Cons.prems fs v show ?thesis
        unfolding em eqs by simp
    next
      case (ProcessRtp buf)
      let ?r = "kms_rtp_synchronizer_process_rtp_buffer_mapped s buf"
      from rtp_sorted_step [OF fs v, of buf]
      consider (ok) "fst ?r = None" "feeded_sorted (step s (ProcessRtp buf))"
          "fs_last_pts s \<le> snd (snd ?r)" "fs_last_pts (step s (ProcessRtp buf)) = snd (snd ?r)"
        | (err) "fst ?r \<noteq> None"
          "feeded_sorted (step s (ProcessRtp buf)) \<longrightarrow>
                fs_last_pts (step s (ProcessRtp buf)) = fs_last_pts s"
        by argo
      then show ?thesis
      proof cases
        case ok
        have em: "emitted_sorted s (e # es) = snd (snd ?r) # emitted_sorted (step s e) es"
          using ProcessRtp ok fs by simp
        have pv: "GST_CLOCK_TIME_IS_VALID (snd (snd ?r))"
          and rest: "\<forall>p \<in> set (emitted_sorted (step s e) es). GST_CLOCK_TIME_IS_VALID p"
          using Cons.prems(2) unfolding em by simp_all
        have "feeded_sorted (step s e) \<longrightarrow> GST_CLOCK_TIME_IS_VALID (fs_last_pts (step s e))"
          using ok pv ProcessRtp by simp
        from Cons.IH [OF this rest] ok ProcessRtp
        have ih: "sorted (emitted_sorted (step s e) es)"
          "\<forall>p \<in> set (emitted_sorted (step s e) es). snd (snd ?r) \<le> p" by simp_all
        show ?thesis unfolding em using ih ok(3) by auto
      next
        case err
        have em: "emitted_sorted s (e # es) = emitted_sorted (step s e) es"
          using ProcessRtp err by simp
        have "feeded_sorted (step s e) \<longrightarrow> GST_CLOCK_TIME_IS_VALID (fs_last_pts (step s e))"
          using err v ProcessRtp by simp
        from Cons.IH [OF this] Cons.prems(2) [unfolded em]
        have ih: "sorted (emitted_sorted (step s e) es)"
          "feeded_sorted (step s e) \<longrightarrow> (\<forall>p \<in> set (emitted_sorted (step s e) es). fs_last_pts (step s e) \<le> p)"
          by simp_all
        show ?thesis
        proof (cases "feeded_sorted (step s e)")
          case True
          then show ?thesis unfolding em using ih err ProcessRtp by simp
        next
          case False
          then show ?thesis unfolding em by (simp add: emitted_unsorted)
        qed
      qed
    qed
  qed
qed

subsection \<open>The extended timestamp\<close>

lemma scast_small:
  fixes d :: guint32
  assumes "uint d < 2147483648"
  shows "uint (scast d :: guint64) = uint d"
proof -
  have "- 2147483648 \<le> uint d" using uint_ge_0 [of d] by linarith
  then have "signed_take_bit 31 (uint d) = uint d"
    using assms by (intro signed_take_bit_int_eq_self) simp_all
  then have "sint d = uint d" by (simp add: sint_uint)
  then have "(scast d :: guint64) = word_of_int (uint d)" by (simp only: scast_eq)
  then have "uint (scast d :: guint64) = uint d mod 2 ^ 64"
    by (simp only: uint_word_of_int len_bit0 len_num1 mult_2 one_plus_numeral_commute) simp
  moreover have "uint d mod 18446744073709551616 = uint d"
    using assms by (intro mod_pos_pos_trivial) simp_all
  ultimately show ?thesis by simp
qed

lemma ext_step:
  fixes e :: guint64 and t :: guint32
  assumes ne: "e \<noteq> GST_CLOCK_TIME_NONE"
    and d: "0 < uint (t - ucast e)" "uint (t - ucast e) < 2147483648"
    and b: "uint e + uint (t - ucast e) < 18446744073709551615"
  shows "fst (gst_rtp_buffer_ext_timestamp e t) = snd (gst_rtp_buffer_ext_timestamp e t)"
    and "uint (snd (gst_rtp_buffer_ext_timestamp e t)) = uint e + uint (t - ucast e)"
    and "ucast (snd (gst_rtp_buffer_ext_timestamp e t)) = t"
    and "snd (gst_rtp_buffer_ext_timestamp e t) \<noteq> GST_CLOCK_TIME_NONE"
    and "e < snd (gst_rtp_buffer_ext_timestamp e t)"
proof -
  let ?d = "t - (ucast e :: guint32)"
  let ?r = "e + (scast ?d :: guint64)"
  have r: "gst_rtp_buffer_ext_timestamp e t = (?r, ?r)"
    using ne by (simp add: gst_rtp_buffer_ext_timestamp_def Let_def)
  show "fst (gst_rtp_buffer_ext_timestamp e t) = snd (gst_rtp_buffer_ext_timestamp e t)"
    by (simp add: r)
  have sd: "uint (scast ?d :: guint64) = uint ?d" using d(2) by (rule scast_small)
  have u: "uint ?r = uint e + uint ?d"
    using b by (simp add: uint_add64 sd)
  then show "uint (snd (gst_rtp_buffer_ext_timestamp e t)) = uint e + uint (t - ucast e)"
    by (simp add: r)
  have "(ucast ?r :: guint32) = word_of_int (uint ?r)" by (rule ucast_eq)
  also have "\<dots> = word_of_int (uint e + uint ?d)" by (simp only: u)
  also have "\<dots> = word_of_int (uint e) + word_of_int (uint ?d)" by (rule of_int_add)
  also have "word_of_int (uint e) = (ucast e :: guint32)" by (rule ucast_eq [symmetric])
  also have "word_of_int (uint ?d) = ?d" by (rule word_of_int_uint)
  finally have "(ucast ?r :: guint32) = t" by simp
  then show "ucast (snd (gst_rtp_buffer_ext_timestamp e t)) = t" by (simp only: r snd_conv)
  have "uint ?r \<noteq> uint GST_CLOCK_TIME_NONE"
    using b u by (simp add: GST_CLOCK_TIME_NONE_def)
  then show "snd (gst_rtp_buffer_ext_timestamp e t) \<noteq> GST_CLOCK_TIME_NONE"
    by (auto simp add: r)
  show "e < snd (gst_rtp_buffer_ext_timestamp e t)"
    using d(1) u by (simp add: r word_less_def)
qed


lemma ext_timestamps_ascending:
  assumes "e \<noteq> GST_CLOCK_TIME_NONE" "ascending32 (ucast e # ts)"
    "uint e + int (length ts) * 2147483647 < 18446744073709551615"
  shows "length (ext_timestamps e ts) = length ts
     \<and> sorted_wrt (<) (e # ext_timestamps e ts)
     \<and> (\<forall>i < length ts.
           uint ((e # ext_timestamps e ts) ! Suc i) - uint ((e # ext_timestamps e ts) ! i)
           = uint ((ucast e # ts) ! Suc i - (ucast e # ts) ! i))"
  using assms
proof (induction ts arbitrary: e)
  case Nil
  show ?case by simp
next
  case (Cons t ts)
  let ?e' = "snd (gst_rtp_buffer_ext_timestamp e t)"
  from Cons.prems(2) have d: "0 < uint (t - ucast e)" "uint (t - ucast e) < 2147483648"
    and asc: "ascending32 (t # ts)" by simp_all
  have b: "uint e + uint (t - ucast e) < 18446744073709551615"
    using Cons.prems(3) d(2) by simp
  note st = ext_step [OF Cons.prems(1) d b]
  have b': "uint ?e' + int (length ts) * 2147483647 < 18446744073709551615"
    using Cons.prems(3) d(2) st(2) by simp
  have asc': "ascending32 (ucast ?e' # ts)" using asc st(3) by simp
  note ih = Cons.IH [OF st(4) asc' b']
  have out: "ext_timestamps e (t # ts) = ?e' # ext_timestamps ?e' ts"
    by (simp only: ext_timestamps.simps st(1))
  have len: "length (ext_timestamps e (t # ts)) = length (t # ts)"
    using ih unfolding out by simp
  have srt: "sorted_wrt (<) (e # ext_timestamps e (t # ts))"
    using ih st(5) unfolding out by auto
  have dif: "uint ((e # ext_timestamps e (t # ts)) ! Suc i)
               - uint ((e # ext_timestamps e (t # ts)) ! i)
             = uint ((ucast e # t # ts) ! Suc i - (ucast e # t # ts) ! i)"
    if "i < length (t # ts)" for i
  proof (cases i)
    case 0
    then show ?thesis unfolding out using st(2) by simp
  next
    case (Suc j)
    with that have "j < length ts" by simp
    with ih have "uint ((?e' # ext_timestamps ?e' ts) ! Suc j)
                   - uint ((?e' # ext_timestamps ?e' ts) ! j)
                 = uint ((ucast ?e' # ts) ! Suc j - (ucast ?e' # ts) ! j)" by blast
    then show ?thesis unfolding out Suc by (simp add: st(3))
  qed
  show ?case using len srt dif by blast
qed

lemma ucast_up_down: "(ucast (ucast (t :: guint32) :: guint64) :: guint32) = t"
  by (rule ucast_up_ucast_id) (simp add: is_up)

lemma ext_timestamps_first:
  assumes "ascending32 ts" "length ts \<le> 8589934592"
  shows "length (ext_timestamps GST_CLOCK_TIME_NONE ts) = length ts
     \<and> sorted_wrt (<) (ext_timestamps GST_CLOCK_TIME_NONE ts)
     \<and> (\<forall>i. Suc i < length ts \<longrightarrow>
           uint (ext_timestamps GST_CLOCK_TIME_NONE ts ! Suc i)
             - uint (ext_timestamps GST_CLOCK_TIME_NONE ts ! i)
           = uint (ts ! Suc i - ts ! i))
     \<and> (ts \<noteq> [] \<longrightarrow> ext_timestamps GST_CLOCK_TIME_NONE ts ! 0 = ucast (ts ! 0))"
proof (cases ts)
  case Nil
  then show ?thesis by simp
next
  case (Cons t rest)
  let ?e = "ucast t :: guint64"
  have "gst_rtp_buffer_ext_timestamp GST_CLOCK_TIME_NONE t = (?e, ?e)"
    by (simp add: gst_rtp_buffer_ext_timestamp_def)
  then have out: "ext_timestamps GST_CLOCK_TIME_NONE ts = ?e # ext_timestamps ?e rest"
    unfolding Cons by (simp only: ext_timestamps.simps fst_conv snd_conv)
  have lt: "uint ?e < 4294967296" by (rule ucast32_lt)
  then have ne: "?e \<noteq> GST_CLOCK_TIME_NONE" by (auto simp add: GST_CLOCK_TIME_NONE_def)
  have asc: "ascending32 (ucast ?e # rest)" using assms(1) Cons by (simp add: ucast_up_down)
  have "int (length rest) \<le> 8589934591" using assms(2) Cons by simp
  then have b: "uint ?e + int (length rest) * 2147483647 < 18446744073709551615"
    using lt by simp
  note g = ext_timestamps_ascending [OF ne asc b]
  show ?thesis unfolding out using g Cons by (simp add: ucast_up_down)
qed


lemma ascending32_ramp: "ascending32 (ramp t n)"
proof (induction n arbitrary: t)
  case 0
  show ?case by simp
next
  case (Suc n)
  show ?case
  proof (cases n)
    case 0
    then show ?thesis by simp
  next
    case (Suc m)
    have "ascending32 (ramp (t + 1073741824) (Suc m))" by (rule Suc.IH [unfolded Suc])
    then show ?thesis unfolding Suc by simp
  qed
qed

lemma take_bit_32_64:
  fixes a b :: int
  shows "take_bit 32 (take_bit 64 a + take_bit 64 b) = take_bit 32 (a + b)"
proof -
  have "take_bit 32 (take_bit 64 a + take_bit 64 b)
      = take_bit 32 (take_bit 32 (take_bit 64 a) + take_bit 32 (take_bit 64 b))"
    by (simp only: take_bit_add)
  also have "\<dots> = take_bit 32 (take_bit 32 a + take_bit 32 b)"
    by (simp add: take_bit_take_bit)
  also have "\<dots> = take_bit 32 (a + b)" by (simp only: take_bit_add)
  finally show ?thesis .
qed

lemma ucast_add_down:
  fixes a b :: guint64
  shows "(ucast (a + b) :: guint32) = ucast a + ucast b"
  by transfer (simp add: take_bit_32_64)

lemma ext_even_step:
  fixes e :: guint64
  assumes "even e"
  shows "gst_rtp_buffer_ext_timestamp e (ucast e + 1073741824)
           = (e + 1073741824, e + 1073741824)"
proof -
  have "odd GST_CLOCK_TIME_NONE" by (simp add: GST_CLOCK_TIME_NONE_def)
  with assms have ne: "e \<noteq> GST_CLOCK_TIME_NONE" by auto
  have "(scast (1073741824 :: guint32) :: guint64) = 1073741824" by simp
  then show ?thesis using ne by (simp add: gst_rtp_buffer_ext_timestamp_def Let_def)
qed

lemma ext_timestamps_ramp:
  fixes e :: guint64
  assumes "even e"
  shows "ext_timestamps e (ramp (ucast e + 1073741824) n) = ramp64 (e + 1073741824) n"
  using assms
proof (induction n arbitrary: e)
  case 0
  show ?case by simp
next
  case (Suc n)
  let ?r = "e + 1073741824"
  have ev: "even ?r" using Suc.prems by simp
  have uc: "(ucast ?r :: guint32) = ucast e + 1073741824" by (simp add: ucast_add_down)
  have "ext_timestamps e (ramp (ucast e + 1073741824) (Suc n))
      = ?r # ext_timestamps ?r (ramp (ucast ?r + 1073741824) n)"
    by (simp only: ramp.simps ext_timestamps.simps ext_even_step [OF Suc.prems]
          fst_conv snd_conv uc)
  also have "ext_timestamps ?r (ramp (ucast ?r + 1073741824) n) = ramp64 (?r + 1073741824) n"
    by (rule Suc.IH [OF ev])
  finally show ?case by simp
qed

lemma ext_timestamps_ramp0:
  "ext_timestamps GST_CLOCK_TIME_NONE (ramp 0 (Suc n)) = ramp64 0 (Suc n)"
proof -
  have "gst_rtp_buffer_ext_timestamp GST_CLOCK_TIME_NONE 0 = (0, 0)"
    by (simp add: gst_rtp_buffer_ext_timestamp_def)
  then have "ext_timestamps GST_CLOCK_TIME_NONE (ramp 0 (Suc n))
      = 0 # ext_timestamps 0 (ramp (0 + 1073741824) n)"
    by (simp only: ramp.simps ext_timestamps.simps fst_conv snd_conv)
  also have "ext_timestamps 0 (ramp (0 + 1073741824) n) = ramp64 (0 + 1073741824) n"
    using ext_timestamps_ramp [of 0 n] by simp
  finally show ?thesis by simp
qed

lemma ramp64_nth: "i < n \<Longrightarrow> ramp64 e n ! i = e + word_of_nat i * 1073741824"
proof (induction n arbitrary: e i)
  case 0
  then show ?case by simp
next
  case (Suc n)
  show ?case
  proof (cases i)
    case 0
    then show ?thesis by simp
  next
    case (Suc j)
    with Suc.prems have "j < n" by simp
    from Suc.IH [OF this, of "e + 1073741824"] show ?thesis
      unfolding Suc by (simp add: algebra_simps)
  qed
qed

lemma ramp64_length: "length (ramp64 e n) = n"
  by (induction n arbitrary: e) simp_all

lemma ext_add_mod:
  fixes e :: guint64 and d :: guint32
  shows "uint (e + (scast d :: guint64)) = (uint e + sint d) mod 18446744073709551616"
proof -
  have "(scast d :: guint64) = word_of_int (sint d)" by (rule scast_eq)
  then have s: "uint (scast d :: guint64) = sint d mod 18446744073709551616"
    by (simp only: uint_word_of_int) simp
  have "uint (e + (scast d :: guint64))
      = (uint e + uint (scast d :: guint64)) mod 18446744073709551616"
    by (simp add: uint_word_ariths)
  also have "\<dots> = (uint e + sint d) mod 18446744073709551616"
    unfolding s by (rule mod_add_right_eq)
  finally show ?thesis .
qed

subsection \<open>Example states\<close>

text \<open>The state after configuration for payload type 96 at 90 kHz and one packet
  with RTP timestamp 8200 that arrived with PTS 100000000, in sorted mode.\<close>

lemma ex_state_sorted:
  "run (kms_rtp_synchronizer_new True)
     [SetPtClockRate 96 90000, ProcessRtp (rtp_packet 1 8200 100000000)] =
   \<lparr> feeded_sorted = True, ssrc = 1, pt = 96, clock_rate = 90000,
       base_initiated = False, base_initiated_logged = True,
       base_ntp_time = GST_CLOCK_TIME_NONE, base_sync_time = GST_CLOCK_TIME_NONE,
       base_interpolate_initiated = True,
       base_interpolate_ext_ts = 8200,
       base_interpolate_pts = 100000000,
       rtp_ext_ts = 8200,
       last_rtcp_ext_ts = GST_CLOCK_TIME_NONE,
       last_rtcp_ntp_time = GST_CLOCK_TIME_NONE,
       fs_last_rtp_ext_ts = 8200,
       fs_last_pts = 100000000 \<rparr>"
  by (simp add: run_defs)

lemma ex_state_configured:
  "run (kms_rtp_synchronizer_new fs) [SetPtClockRate 96 90000] =
   (kms_rtp_synchronizer_new fs)\<lparr>pt := 96, clock_rate := 90000\<rparr>"
  by (simp add: kms_rtp_synchronizer_set_pt_clock_rate_def kms_rtp_synchronizer_new_def)

lemma ex_state_sr:
  "run (kms_rtp_synchronizer_new True)
      [ProcessRtcp (Some ([GST_RTCP_TYPE_SR 1 4294967296 8200], 500000000))] =
   (kms_rtp_synchronizer_new True)
     \<lparr> base_initiated := True, base_ntp_time := 1000000000, base_sync_time := 500000000,
       rtp_ext_ts := 8200, last_rtcp_ext_ts := 8200, last_rtcp_ntp_time := 1000000000 \<rparr>"
  by (simp add: run_defs)

lemma ex_state_demoted:
  "run (run (kms_rtp_synchronizer_new True)
              [SetPtClockRate 96 90000, ProcessRtp (rtp_packet 1 8200 100000000)])
       [ProcessRtp (rtp_packet 1 4600 100000001)] =
   \<lparr> feeded_sorted = False, ssrc = 1, pt = 96, clock_rate = 90000,
       base_initiated = False, base_initiated_logged = True,
       base_ntp_time = GST_CLOCK_TIME_NONE, base_sync_time = GST_CLOCK_TIME_NONE,
       base_interpolate_initiated = True,
       base_interpolate_ext_ts = 8200,
       base_interpolate_pts = 100000000,
       rtp_ext_ts = 4600,
       last_rtcp_ext_ts = GST_CLOCK_TIME_NONE,
       last_rtcp_ntp_time = GST_CLOCK_TIME_NONE,
       fs_last_rtp_ext_ts = 8200,
       fs_last_pts = 100000000 \<rparr>"
  unfolding ex_state_sorted by (simp add: run_defs)

lemma ex_state_wrapped_up:
  "run (kms_rtp_synchronizer_new False)
     [SetPtClockRate 96 90000,
      ProcessRtcp (Some ([GST_RTCP_TYPE_SR 1 0 0], 18446744073709551606)),
      ProcessRtcp (Some ([GST_RTCP_TYPE_SR 1 65 0], 0))] =
   \<lparr> feeded_sorted = False, ssrc = 0, pt = 96, clock_rate = 90000,
       base_initiated = True, base_initiated_logged = False,
       base_ntp_time = 0, base_sync_time = 18446744073709551606,
       base_interpolate_initiated = False,
       base_interpolate_ext_ts = GST_CLOCK_TIME_NONE,
       base_interpolate_pts = GST_CLOCK_TIME_NONE,
       rtp_ext_ts = 0,
       last_rtcp_ext_ts = 0,
       last_rtcp_ntp_time = 15,
       fs_last_rtp_ext_ts = GST_CLOCK_TIME_NONE,
       fs_last_pts = GST_CLOCK_TIME_NONE \<rparr>"
  by (simp add: run_defs)

lemma ex_state_saturate_low:
  "run (kms_rtp_synchronizer_new False)
     [SetPtClockRate 96 90000,
      ProcessRtcp (Some ([GST_RTCP_TYPE_SR 1 4294967296 8200], 10)),
      ProcessRtcp (Some ([GST_RTCP_TYPE_SR 1 0 8200], 20)),
      ProcessRtp (rtp_packet 1 8200 7)] =
   \<lparr> feeded_sorted = False, ssrc = 1, pt = 96, clock_rate = 90000,
       base_initiated = True, base_initiated_logged = False,
       base_ntp_time = 1000000000, base_sync_time = 10,
       base_interpolate_initiated = False,
       base_interpolate_ext_ts = GST_CLOCK_TIME_NONE,
       base_interpolate_pts = GST_CLOCK_TIME_NONE,
       rtp_ext_ts = 8200,
       last_rtcp_ext_ts = 8200,
       last_rtcp_ntp_time = 0,
       fs_last_rtp_ext_ts = GST_CLOCK_TIME_NONE,
       fs_last_pts = GST_CLOCK_TIME_NONE \<rparr>"
  by (simp add: run_defs)

lemma ex_state_s1:
  "run (kms_rtp_synchronizer_new True)
     [SetPtClockRate 96 90000, ProcessRtp (rtp_packet 1 1000 100000000)] =
   \<lparr> feeded_sorted = True, ssrc = 1, pt = 96, clock_rate = 90000,
       base_initiated = False, base_initiated_logged = True,
       base_ntp_time = GST_CLOCK_TIME_NONE, base_sync_time = GST_CLOCK_TIME_NONE,
       base_interpolate_initiated = True,
       base_interpolate_ext_ts = 1000,
       base_interpolate_pts = 100000000,
       rtp_ext_ts = 1000,
       last_rtcp_ext_ts = GST_CLOCK_TIME_NONE,
       last_rtcp_ntp_time = GST_CLOCK_TIME_NONE,
       fs_last_rtp_ext_ts = 1000,
       fs_last_pts = 100000000 \<rparr>"
  by (simp add: run_defs)

lemma ex_state_early:
  "run (kms_rtp_synchronizer_new False)
     [SetPtClockRate 96 90000, ProcessRtp (rtp_packet 1 1000 5000000)] =
   \<lparr> feeded_sorted = False, ssrc = 1, pt = 96, clock_rate = 90000,
       base_initiated = False, base_initiated_logged = True,
       base_ntp_time = GST_CLOCK_TIME_NONE, base_sync_time = GST_CLOCK_TIME_NONE,
       base_interpolate_initiated = True,
       base_interpolate_ext_ts = 1000,
       base_interpolate_pts = 5000000,
       rtp_ext_ts = 1000,
       last_rtcp_ext_ts = GST_CLOCK_TIME_NONE,
       last_rtcp_ntp_time = GST_CLOCK_TIME_NONE,
       fs_last_rtp_ext_ts = GST_CLOCK_TIME_NONE,
       fs_last_pts = GST_CLOCK_TIME_NONE \<rparr>"
  by (simp add: run_defs)

subsection \<open>Configuration\<close>

text \<open>C9. \<^verbatim>\<open>kms_rtp_synchronizer_set_pt_clock_rate\<close> fails with
  \<^verbatim>\<open>KMS_RTP_SYNC_INVALID_DATA\<close>, leaving the state as it was, when the clock rate is not
  positive. When it succeeds, the payload type and the clock rate are stored; they
  stay stored through every later sequence of calls \<open>es\<close>, and every later attempt to
  configure, with the same or with other arguments \<open>p'\<close>, \<open>c'\<close>, fails with
  \<^verbatim>\<open>KMS_RTP_SYNC_INVALID_DATA\<close>.\<close>

theorem set_pt_clock_rate_once:
  "(sint c \<le> 0 \<longrightarrow>
      kms_rtp_synchronizer_set_pt_clock_rate s p c = (Some KMS_RTP_SYNC_INVALID_DATA, s)) \<and>
   (kms_rtp_synchronizer_set_pt_clock_rate s p c = (None, s') \<longrightarrow>
      pt s' = p \<and> clock_rate s' = c \<and> pt (run s' es) = p \<and> clock_rate (run s' es) = c \<and>
      kms_rtp_synchronizer_set_pt_clock_rate (run s' es) p' c' =
        (Some KMS_RTP_SYNC_INVALID_DATA, run s' es))"
proof (intro conjI impI)
  assume "sint c \<le> 0"
  then show "kms_rtp_synchronizer_set_pt_clock_rate s p c = (Some KMS_RTP_SYNC_INVALID_DATA, s)"
    by (simp add: kms_rtp_synchronizer_set_pt_clock_rate_def)
next
  assume ok: "kms_rtp_synchronizer_set_pt_clock_rate s p c = (None, s')"
  then have pos: "0 < sint c" and s': "s' = s\<lparr>pt := p, clock_rate := c\<rparr>"
    by (auto simp: kms_rtp_synchronizer_set_pt_clock_rate_def split: if_splits)
  from pos have nz: "clock_rate s' \<noteq> 0" using s' by auto
  show "pt s' = p" "clock_rate s' = c" using s' by simp_all
  from run_configured [OF nz, of es] show r: "pt (run s' es) = p" "clock_rate (run s' es) = c"
    using s' by simp_all
  then have "clock_rate (run s' es) \<noteq> 0" using nz s' by simp
  then show "kms_rtp_synchronizer_set_pt_clock_rate (run s' es) p' c' =
        (Some KMS_RTP_SYNC_INVALID_DATA, run s' es)"
    by (rule set_pt_configured)
qed


theorem set_pt_clock_rate_once_witness:
  "sint (0 :: gint32) \<le> 0 \<and>
   kms_rtp_synchronizer_set_pt_clock_rate (kms_rtp_synchronizer_new False) 96 0 =
     (Some KMS_RTP_SYNC_INVALID_DATA, kms_rtp_synchronizer_new False) \<and>
   kms_rtp_synchronizer_set_pt_clock_rate (kms_rtp_synchronizer_new False) 96 90000 =
     (None, (kms_rtp_synchronizer_new False)\<lparr>pt := 96, clock_rate := 90000\<rparr>) \<and>
   kms_rtp_synchronizer_set_pt_clock_rate
     (run ((kms_rtp_synchronizer_new False)\<lparr>pt := 96, clock_rate := 90000\<rparr>)
        [ProcessRtcp None, SetPtClockRate 8 8000]) 96 90000 =
     (Some KMS_RTP_SYNC_INVALID_DATA,
      run ((kms_rtp_synchronizer_new False)\<lparr>pt := 96, clock_rate := 90000\<rparr>)
        [ProcessRtcp None, SetPtClockRate 8 8000])"
  using set_pt_clock_rate_once [of 0 "kms_rtp_synchronizer_new False" 96]
    set_pt_clock_rate_once [of 90000 "kms_rtp_synchronizer_new False" 96
      "(kms_rtp_synchronizer_new False)\<lparr>pt := 96, clock_rate := 90000\<rparr>"
      "[ProcessRtcp None, SetPtClockRate 8 8000]" 96 90000]
  by (simp add: kms_rtp_synchronizer_set_pt_clock_rate_def kms_rtp_synchronizer_new_def)

subsection \<open>Rejected packets\<close>

text \<open>C10. When \<^verbatim>\<open>kms_rtp_synchronizer_process_rtp_buffer_mapped\<close> rejects a packet for
  an SSRC mismatch, a payload type mismatch or a clock rate that is not positive, it
  returns \<^verbatim>\<open>KMS_RTP_SYNC_INVALID_DATA\<close> before the extended-timestamp tracker is
  advanced: \<^verbatim>\<open>rtp_ext_ts\<close>, the base and the interpolation anchors, \<^verbatim>\<open>last_rtcp_*\<close>, the
  sorted-mode fields and the buffer's PTS are what they were; the state differs from
  the old one in the \<^verbatim>\<open>ssrc\<close> field at most.\<close>

theorem rejected_rtp_leaves_state:
  assumes "(ssrc s \<noteq> 0 \<and> rtp_ssrc buf \<noteq> ssrc s)
           \<or> uint (rtp_payload_type buf) \<noteq> sint (pt s) \<or> sint (clock_rate s) \<le> 0"
  shows "\<exists>s'. kms_rtp_synchronizer_process_rtp_buffer_mapped s buf =
                (Some KMS_RTP_SYNC_INVALID_DATA, s', buffer_pts buf)
          \<and> rtp_ext_ts s' = rtp_ext_ts s
          \<and> base_initiated s' = base_initiated s
          \<and> base_ntp_time s' = base_ntp_time s
          \<and> base_sync_time s' = base_sync_time s
          \<and> base_interpolate_initiated s' = base_interpolate_initiated s
          \<and> base_interpolate_ext_ts s' = base_interpolate_ext_ts s
          \<and> base_interpolate_pts s' = base_interpolate_pts s
          \<and> last_rtcp_ext_ts s' = last_rtcp_ext_ts s
          \<and> last_rtcp_ntp_time s' = last_rtcp_ntp_time s
          \<and> fs_last_rtp_ext_ts s' = fs_last_rtp_ext_ts s
          \<and> fs_last_pts s' = fs_last_pts s
          \<and> feeded_sorted s' = feeded_sorted s
          \<and> s' = s\<lparr>ssrc := ssrc s'\<rparr>"
proof -
  from assms have "\<not> accepts s buf" by (auto simp: accepts_def)
  from rtp_reject_eq [OF this] show ?thesis by simp
qed

theorem rejected_rtp_leaves_state_witness:
  "ssrc (run (kms_rtp_synchronizer_new True)
           [SetPtClockRate 96 90000, ProcessRtp (rtp_packet 1 8200 100000000)]) \<noteq> 0
   \<and> rtp_ssrc (rtp_packet 2 4600 100000001)
       \<noteq> ssrc (run (kms_rtp_synchronizer_new True)
           [SetPtClockRate 96 90000, ProcessRtp (rtp_packet 1 8200 100000000)])
   \<and> kms_rtp_synchronizer_process_rtp_buffer_mapped
        (run (kms_rtp_synchronizer_new True)
           [SetPtClockRate 96 90000, ProcessRtp (rtp_packet 1 8200 100000000)])
        (rtp_packet 2 4600 100000001)
      = (Some KMS_RTP_SYNC_INVALID_DATA,
         run (kms_rtp_synchronizer_new True)
           [SetPtClockRate 96 90000, ProcessRtp (rtp_packet 1 8200 100000000)],
         100000001)"
  using rejected_rtp_leaves_state
    [of "run (kms_rtp_synchronizer_new True)
           [SetPtClockRate 96 90000, ProcessRtp (rtp_packet 1 8200 100000000)]"
        "rtp_packet 2 4600 100000001"]
  unfolding ex_state_sorted
  by (simp add: run_defs)

subsection \<open>Sender Reports\<close>

text \<open>C4. Every Sender Report leaves \<^verbatim>\<open>base_initiated\<close> set. Once it is set, no
  sequence of calls \<open>es\<close> (Sender Reports among them) clears it or rewrites
  \<^verbatim>\<open>base_ntp_time\<close> and \<^verbatim>\<open>base_sync_time\<close>. Every Sender Report, the first included,
  feeds its RTP timestamp through the extended-timestamp tracker, stores the result
  in \<^verbatim>\<open>last_rtcp_ext_ts\<close>, and sets \<^verbatim>\<open>last_rtcp_ntp_time\<close> to the NTP timestamp in
  nanoseconds, \<open>ntp * 10^9 div 2^32\<close>.\<close>

theorem sender_report_anchors:
  "base_initiated (kms_rtp_synchronizer_process_rtcp_packet s (GST_RTCP_TYPE_SR sr ntp ts) now)
   \<and> (base_initiated s \<longrightarrow>
        base_initiated (run s es) \<and> base_ntp_time (run s es) = base_ntp_time s
        \<and> base_sync_time (run s es) = base_sync_time s)
   \<and> last_rtcp_ext_ts (kms_rtp_synchronizer_process_rtcp_packet s (GST_RTCP_TYPE_SR sr ntp ts) now)
        = snd (gst_rtp_buffer_ext_timestamp (rtp_ext_ts s) ts)
   \<and> rtp_ext_ts (kms_rtp_synchronizer_process_rtcp_packet s (GST_RTCP_TYPE_SR sr ntp ts) now)
        = fst (gst_rtp_buffer_ext_timestamp (rtp_ext_ts s) ts)
   \<and> uint (last_rtcp_ntp_time
              (kms_rtp_synchronizer_process_rtcp_packet s (GST_RTCP_TYPE_SR sr ntp ts) now))
        = uint ntp * 1000000000 div 4294967296"
proof (intro conjI impI)
  show "base_initiated (kms_rtp_synchronizer_process_rtcp_packet s (GST_RTCP_TYPE_SR sr ntp ts) now)"
    by (simp add: kms_rtp_synchronizer_process_rtcp_packet_def Let_def split: prod.split)
  show "last_rtcp_ext_ts (kms_rtp_synchronizer_process_rtcp_packet s (GST_RTCP_TYPE_SR sr ntp ts) now)
        = snd (gst_rtp_buffer_ext_timestamp (rtp_ext_ts s) ts)"
    by (simp add: kms_rtp_synchronizer_process_rtcp_packet_def Let_def split: prod.split)
  show "rtp_ext_ts (kms_rtp_synchronizer_process_rtcp_packet s (GST_RTCP_TYPE_SR sr ntp ts) now)
        = fst (gst_rtp_buffer_ext_timestamp (rtp_ext_ts s) ts)"
    by (simp add: kms_rtp_synchronizer_process_rtcp_packet_def Let_def split: prod.split)
  have "last_rtcp_ntp_time (kms_rtp_synchronizer_process_rtcp_packet s (GST_RTCP_TYPE_SR sr ntp ts) now)
        = gst_util_uint64_scale ntp GST_SECOND 4294967296"
    by (simp add: kms_rtp_synchronizer_process_rtcp_packet_def Let_def split: prod.split)
  then show "uint (last_rtcp_ntp_time
              (kms_rtp_synchronizer_process_rtcp_packet s (GST_RTCP_TYPE_SR sr ntp ts) now))
        = uint ntp * 1000000000 div 4294967296"
    by (simp only: scale_ntp)
next
  assume "base_initiated s"
  from run_base [OF this, of es]
  show "base_initiated (run s es)" "base_ntp_time (run s es) = base_ntp_time s"
    "base_sync_time (run s es) = base_sync_time s" by simp_all
qed

theorem sender_report_anchors_witness:
  "base_initiated (run (kms_rtp_synchronizer_new True)
      [ProcessRtcp (Some ([GST_RTCP_TYPE_SR 1 4294967296 8200], 500000000))])
   \<and> base_ntp_time (run (run (kms_rtp_synchronizer_new True)
      [ProcessRtcp (Some ([GST_RTCP_TYPE_SR 1 4294967296 8200], 500000000))])
      [ProcessRtcp (Some ([GST_RTCP_TYPE_SR 1 8589934592 98200], 1500000000))]) = 1000000000
   \<and> base_sync_time (run (run (kms_rtp_synchronizer_new True)
      [ProcessRtcp (Some ([GST_RTCP_TYPE_SR 1 4294967296 8200], 500000000))])
      [ProcessRtcp (Some ([GST_RTCP_TYPE_SR 1 8589934592 98200], 1500000000))]) = 500000000
   \<and> last_rtcp_ntp_time (run (run (kms_rtp_synchronizer_new True)
      [ProcessRtcp (Some ([GST_RTCP_TYPE_SR 1 4294967296 8200], 500000000))])
      [ProcessRtcp (Some ([GST_RTCP_TYPE_SR 1 8589934592 98200], 1500000000))]) = 2000000000
   \<and> last_rtcp_ext_ts (run (run (kms_rtp_synchronizer_new True)
      [ProcessRtcp (Some ([GST_RTCP_TYPE_SR 1 4294967296 8200], 500000000))])
      [ProcessRtcp (Some ([GST_RTCP_TYPE_SR 1 8589934592 98200], 1500000000))]) = 98200"
  using sender_report_anchors
    [of "run (kms_rtp_synchronizer_new True)
      [ProcessRtcp (Some ([GST_RTCP_TYPE_SR 1 4294967296 8200], 500000000))]"
      1 8589934592 98200 1500000000
      "[ProcessRtcp (Some ([GST_RTCP_TYPE_SR 1 8589934592 98200], 1500000000))]"]
  unfolding ex_state_sr
  by (simp add: run_defs)

subsection \<open>Demotion from sorted mode\<close>

text \<open>C6. In sorted mode, an accepted packet whose extended timestamp is below the
  recorded \<^verbatim>\<open>fs_last_rtp_ext_ts\<close> makes the call report \<^verbatim>\<open>KMS_RTP_SYNC_INVALID_DATA\<close>,
  and the state and the PTS it leaves are exactly those of processing the packet
  with \<^verbatim>\<open>feeded_sorted\<close> already false: the PTS is computed by \<open>compute_pts\<close> and
  written, and \<^verbatim>\<open>feeded_sorted\<close> is false afterwards. Once false, \<^verbatim>\<open>feeded_sorted\<close> stays
  false through every sequence of calls, so the change from true to false happens at
  most once.\<close>

theorem sorted_regression_demotes:
  "(accepts s buf \<and> feeded_sorted s \<and> GST_CLOCK_TIME_IS_VALID (fs_last_rtp_ext_ts s)
      \<and> ext_of s buf < fs_last_rtp_ext_ts s \<longrightarrow>
      kms_rtp_synchronizer_process_rtp_buffer_mapped s buf =
        (Some KMS_RTP_SYNC_INVALID_DATA,
         snd (kms_rtp_synchronizer_process_rtp_buffer_mapped (s\<lparr>feeded_sorted := False\<rparr>) buf))
      \<and> kms_rtp_synchronizer_process_rtp_buffer_mapped (s\<lparr>feeded_sorted := False\<rparr>) buf =
        (None, compute_pts (s\<lparr>feeded_sorted := False, ssrc := rtp_ssrc buf,
                               rtp_ext_ts := ext_of s buf\<rparr>) (ext_of s buf) (buffer_pts buf))
      \<and> \<not> feeded_sorted (fst (snd (kms_rtp_synchronizer_process_rtp_buffer_mapped s buf))))
   \<and> (\<not> feeded_sorted s \<longrightarrow> \<not> feeded_sorted (run s es))"
proof (intro conjI impI)
  assume "\<not> feeded_sorted s"
  then show "\<not> feeded_sorted (run s es)" by (rule run_sorted)
next
  assume h: "accepts s buf \<and> feeded_sorted s \<and> GST_CLOCK_TIME_IS_VALID (fs_last_rtp_ext_ts s)
      \<and> ext_of s buf < fs_last_rtp_ext_ts s"
  let ?u = "s\<lparr>feeded_sorted := False\<rparr>"
  have au: "accepts ?u buf" using h by (simp add: accepts_def)
  have eu: "ext_of ?u buf = ext_of s buf" by (simp add: ext_of_def)
  have u: "kms_rtp_synchronizer_process_rtp_buffer_mapped ?u buf =
        (None, compute_pts (s\<lparr>feeded_sorted := False, ssrc := rtp_ssrc buf,
                               rtp_ext_ts := ext_of s buf\<rparr>) (ext_of s buf) (buffer_pts buf))"
    using rtp_accept_unsorted [OF au] by (simp add: eu)
  then show "kms_rtp_synchronizer_process_rtp_buffer_mapped ?u buf =
        (None, compute_pts (s\<lparr>feeded_sorted := False, ssrc := rtp_ssrc buf,
                               rtp_ext_ts := ext_of s buf\<rparr>) (ext_of s buf) (buffer_pts buf))" .
  have req: "s\<lparr>ssrc := rtp_ssrc buf, rtp_ext_ts := ext_of s buf, feeded_sorted := False\<rparr>
      = s\<lparr>feeded_sorted := False, ssrc := rtp_ssrc buf, rtp_ext_ts := ext_of s buf\<rparr>"
    by (cases s) simp
  have s: "kms_rtp_synchronizer_process_rtp_buffer_mapped s buf =
     (Some KMS_RTP_SYNC_INVALID_DATA,
      compute_pts (s\<lparr>feeded_sorted := False, ssrc := rtp_ssrc buf,
                               rtp_ext_ts := ext_of s buf\<rparr>) (ext_of s buf) (buffer_pts buf))"
    using h by (simp add: rtp_accept Let_def sorted_fix_def compute_pts_frame req)
  show "kms_rtp_synchronizer_process_rtp_buffer_mapped s buf =
        (Some KMS_RTP_SYNC_INVALID_DATA,
         snd (kms_rtp_synchronizer_process_rtp_buffer_mapped ?u buf))"
    by (simp add: s u)
  show "\<not> feeded_sorted (fst (snd (kms_rtp_synchronizer_process_rtp_buffer_mapped s buf)))"
    by (simp add: s compute_pts_frame)
qed

theorem sorted_regression_demotes_witness:
  "accepts (run (kms_rtp_synchronizer_new True)
              [SetPtClockRate 96 90000, ProcessRtp (rtp_packet 1 8200 100000000)])
           (rtp_packet 1 4600 100000001)
   \<and> feeded_sorted (run (kms_rtp_synchronizer_new True)
              [SetPtClockRate 96 90000, ProcessRtp (rtp_packet 1 8200 100000000)])
   \<and> GST_CLOCK_TIME_IS_VALID (fs_last_rtp_ext_ts (run (kms_rtp_synchronizer_new True)
              [SetPtClockRate 96 90000, ProcessRtp (rtp_packet 1 8200 100000000)]))
   \<and> ext_of (run (kms_rtp_synchronizer_new True)
              [SetPtClockRate 96 90000, ProcessRtp (rtp_packet 1 8200 100000000)])
           (rtp_packet 1 4600 100000001)
       < fs_last_rtp_ext_ts (run (kms_rtp_synchronizer_new True)
              [SetPtClockRate 96 90000, ProcessRtp (rtp_packet 1 8200 100000000)])
   \<and> fst (kms_rtp_synchronizer_process_rtp_buffer_mapped
        (run (kms_rtp_synchronizer_new True)
              [SetPtClockRate 96 90000, ProcessRtp (rtp_packet 1 8200 100000000)])
        (rtp_packet 1 4600 100000001)) = Some KMS_RTP_SYNC_INVALID_DATA
   \<and> snd (snd (kms_rtp_synchronizer_process_rtp_buffer_mapped
        (run (kms_rtp_synchronizer_new True)
              [SetPtClockRate 96 90000, ProcessRtp (rtp_packet 1 8200 100000000)])
        (rtp_packet 1 4600 100000001))) = 60000000
   \<and> \<not> feeded_sorted (run (run (kms_rtp_synchronizer_new True)
              [SetPtClockRate 96 90000, ProcessRtp (rtp_packet 1 8200 100000000)])
           [ProcessRtp (rtp_packet 1 4600 100000001)])
   \<and> \<not> feeded_sorted (run (run (run (kms_rtp_synchronizer_new True)
              [SetPtClockRate 96 90000, ProcessRtp (rtp_packet 1 8200 100000000)])
           [ProcessRtp (rtp_packet 1 4600 100000001)])
           [ProcessRtp (rtp_packet 1 11800 100000002)])"
  using sorted_regression_demotes
    [of "run (kms_rtp_synchronizer_new True)
              [SetPtClockRate 96 90000, ProcessRtp (rtp_packet 1 8200 100000000)]"
        "rtp_packet 1 4600 100000001" "[]"]
    sorted_regression_demotes
    [of "run (run (kms_rtp_synchronizer_new True)
              [SetPtClockRate 96 90000, ProcessRtp (rtp_packet 1 8200 100000000)])
           [ProcessRtp (rtp_packet 1 4600 100000001)]"
        "rtp_packet 1 4600 100000001" "[ProcessRtp (rtp_packet 1 11800 100000002)]"]
  unfolding ex_state_demoted ex_state_sorted
  by (simp add: run_defs)

subsection \<open>Packets that share a timestamp\<close>

text \<open>C7. In sorted mode, an accepted packet whose extended timestamp equals the
  recorded \<^verbatim>\<open>fs_last_rtp_ext_ts\<close>, while \<^verbatim>\<open>fs_last_pts\<close> is set, succeeds and gets
  \<^verbatim>\<open>fs_last_pts\<close> as its PTS; nothing is computed: the state changes in the tracker
  (and the learned SSRC) only. Stated on two calls: when a packet was accepted in
  sorted mode with PTS \<open>p1\<close> and that PTS is recorded, a following packet that gets
  the same extended timestamp succeeds with exactly \<open>p1\<close>, and the state stays as it
  is (but for an SSRC learned when none was stored).\<close>

theorem sorted_duplicate_shares_pts:
  "(accepts s buf \<and> feeded_sorted s \<and> ext_of s buf = fs_last_rtp_ext_ts s
      \<and> GST_CLOCK_TIME_IS_VALID (fs_last_pts s) \<longrightarrow>
      kms_rtp_synchronizer_process_rtp_buffer_mapped s buf =
        (None, s\<lparr>ssrc := rtp_ssrc buf, rtp_ext_ts := ext_of s buf\<rparr>, fs_last_pts s))
   \<and> (accepts s buf \<and> feeded_sorted s
      \<and> kms_rtp_synchronizer_process_rtp_buffer_mapped s buf = (None, s1, p1)
      \<and> accepts s1 buf2 \<and> ext_of s1 buf2 = ext_of s buf
      \<and> GST_CLOCK_TIME_IS_VALID (fs_last_pts s1) \<longrightarrow>
      kms_rtp_synchronizer_process_rtp_buffer_mapped s1 buf2 =
        (None, s1\<lparr>ssrc := rtp_ssrc buf2\<rparr>, p1))"
proof (intro conjI impI)
  assume h: "accepts s buf \<and> feeded_sorted s \<and> ext_of s buf = fs_last_rtp_ext_ts s
      \<and> GST_CLOCK_TIME_IS_VALID (fs_last_pts s)"
  then have acc: "accepts s buf" by simp
  show "kms_rtp_synchronizer_process_rtp_buffer_mapped s buf =
        (None, s\<lparr>ssrc := rtp_ssrc buf, rtp_ext_ts := ext_of s buf\<rparr>, fs_last_pts s)"
    using h by (simp add: rtp_accept [OF acc] Let_def)
next
  assume h: "accepts s buf \<and> feeded_sorted s
      \<and> kms_rtp_synchronizer_process_rtp_buffer_mapped s buf = (None, s1, p1)
      \<and> accepts s1 buf2 \<and> ext_of s1 buf2 = ext_of s buf
      \<and> GST_CLOCK_TIME_IS_VALID (fs_last_pts s1)"
  then have acc: "accepts s buf" and fs: "feeded_sorted s"
    and ok: "kms_rtp_synchronizer_process_rtp_buffer_mapped s buf = (None, s1, p1)"
    and acc2: "accepts s1 buf2" and e: "ext_of s1 buf2 = ext_of s buf"
    and v: "GST_CLOCK_TIME_IS_VALID (fs_last_pts s1)" by simp_all
  from rtp_sorted_ok_fs [OF acc fs ok] v
  have 1: "feeded_sorted s1" "fs_last_rtp_ext_ts s1 = ext_of s buf" "rtp_ext_ts s1 = ext_of s buf"
    "ssrc s1 = rtp_ssrc buf" "fs_last_pts s1 = p1" by simp_all
  have same: "s1\<lparr>ssrc := rtp_ssrc buf2, rtp_ext_ts := ext_of s1 buf2\<rparr>
      = s1\<lparr>ssrc := rtp_ssrc buf2\<rparr>"
    using e 1 by (cases s1) simp
  show "kms_rtp_synchronizer_process_rtp_buffer_mapped s1 buf2 =
        (None, s1\<lparr>ssrc := rtp_ssrc buf2\<rparr>, p1)"
    using 1 v e by (simp add: rtp_accept [OF acc2] Let_def same)
qed

theorem sorted_duplicate_shares_pts_witness:
  "accepts (run (kms_rtp_synchronizer_new True) [SetPtClockRate 96 90000])
     (rtp_packet 1 8200 100000000)
   \<and> feeded_sorted (run (kms_rtp_synchronizer_new True) [SetPtClockRate 96 90000])
   \<and> kms_rtp_synchronizer_process_rtp_buffer_mapped
        (run (kms_rtp_synchronizer_new True) [SetPtClockRate 96 90000])
        (rtp_packet 1 8200 100000000)
      = (None,
         run (kms_rtp_synchronizer_new True)
           [SetPtClockRate 96 90000, ProcessRtp (rtp_packet 1 8200 100000000)],
         100000000)
   \<and> accepts (run (kms_rtp_synchronizer_new True)
           [SetPtClockRate 96 90000, ProcessRtp (rtp_packet 1 8200 100000000)])
        (rtp_packet 1 8200 100000005)
   \<and> ext_of (run (kms_rtp_synchronizer_new True)
           [SetPtClockRate 96 90000, ProcessRtp (rtp_packet 1 8200 100000000)])
        (rtp_packet 1 8200 100000005)
      = fs_last_rtp_ext_ts (run (kms_rtp_synchronizer_new True)
           [SetPtClockRate 96 90000, ProcessRtp (rtp_packet 1 8200 100000000)])
   \<and> GST_CLOCK_TIME_IS_VALID (fs_last_pts (run (kms_rtp_synchronizer_new True)
           [SetPtClockRate 96 90000, ProcessRtp (rtp_packet 1 8200 100000000)]))
   \<and> kms_rtp_synchronizer_process_rtp_buffer_mapped
        (run (kms_rtp_synchronizer_new True)
           [SetPtClockRate 96 90000, ProcessRtp (rtp_packet 1 8200 100000000)])
        (rtp_packet 1 8200 100000005)
      = (None,
         run (kms_rtp_synchronizer_new True)
           [SetPtClockRate 96 90000, ProcessRtp (rtp_packet 1 8200 100000000)],
         100000000)"
  using sorted_duplicate_shares_pts
    [where s = "run (kms_rtp_synchronizer_new True) [SetPtClockRate 96 90000]"
       and buf = "rtp_packet 1 8200 100000000"
       and ?s1.0 = "run (kms_rtp_synchronizer_new True)
           [SetPtClockRate 96 90000, ProcessRtp (rtp_packet 1 8200 100000000)]"
       and ?p1.0 = 100000000
       and ?buf2.0 = "rtp_packet 1 8200 100000005"]
    sorted_duplicate_shares_pts
    [where s = "run (kms_rtp_synchronizer_new True)
           [SetPtClockRate 96 90000, ProcessRtp (rtp_packet 1 8200 100000000)]"
       and buf = "rtp_packet 1 8200 100000005"]
  unfolding ex_state_sorted ex_state_configured
  by (simp add: run_defs)

subsection \<open>The SSRC\<close>

text \<open>C8, as stated, fails: a stored SSRC of 0 means that no SSRC is stored. After
  a first packet with SSRC 0 a packet with SSRC 7 is accepted (and gets the PTS
  140000000), though its SSRC differs from the first packet's.\<close>

theorem ssrc_zero_is_unset:
  "fst (kms_rtp_synchronizer_process_rtp_buffer_mapped
         (run (kms_rtp_synchronizer_new False) [SetPtClockRate 96 90000])
         (rtp_packet 0 1000 100000000)) = None
   \<and> fst (kms_rtp_synchronizer_process_rtp_buffer_mapped
         (run (kms_rtp_synchronizer_new False)
            [SetPtClockRate 96 90000, ProcessRtp (rtp_packet 0 1000 100000000)])
         (rtp_packet 7 4600 100000001)) = None
   \<and> snd (snd (kms_rtp_synchronizer_process_rtp_buffer_mapped
         (run (kms_rtp_synchronizer_new False)
            [SetPtClockRate 96 90000, ProcessRtp (rtp_packet 0 1000 100000000)])
         (rtp_packet 7 4600 100000001))) = 140000000
   \<and> rtp_ssrc (rtp_packet 7 4600 100000001) \<noteq> rtp_ssrc (rtp_packet 0 1000 100000000)"
  by (simp add: run_defs)


text \<open>C8, amended. A packet processed while no SSRC is stored (the field is 0) has
  its SSRC stored, whatever becomes of the packet. A stored SSRC other than 0 stays
  through every sequence of calls \<open>es\<close>, and after it every packet with another SSRC
  fails with \<^verbatim>\<open>KMS_RTP_SYNC_INVALID_DATA\<close>, the state and the buffer's PTS untouched.\<close>

theorem ssrc_fixed_once_nonzero:
  "(ssrc s = 0 \<longrightarrow>
      ssrc (fst (snd (kms_rtp_synchronizer_process_rtp_buffer_mapped s buf))) = rtp_ssrc buf)
   \<and> (ssrc s \<noteq> 0 \<longrightarrow>
      ssrc (run s es) = ssrc s
      \<and> (rtp_ssrc buf \<noteq> ssrc s \<longrightarrow>
           kms_rtp_synchronizer_process_rtp_buffer_mapped (run s es) buf =
             (Some KMS_RTP_SYNC_INVALID_DATA, run s es, buffer_pts buf)))"
proof (intro conjI impI)
  assume "ssrc s = 0"
  then show "ssrc (fst (snd (kms_rtp_synchronizer_process_rtp_buffer_mapped s buf))) = rtp_ssrc buf"
    by (rule rtp_learns_ssrc)
next
  assume nz: "ssrc s \<noteq> 0"
  then show r: "ssrc (run s es) = ssrc s" by (rule run_ssrc)
  assume "rtp_ssrc buf \<noteq> ssrc s"
  with r nz show "kms_rtp_synchronizer_process_rtp_buffer_mapped (run s es) buf =
             (Some KMS_RTP_SYNC_INVALID_DATA, run s es, buffer_pts buf)"
    by (simp add: rtp_reject_ssrc)
qed

theorem ssrc_fixed_once_nonzero_witness:
  "ssrc (run (kms_rtp_synchronizer_new False) [SetPtClockRate 96 90000]) = 0
   \<and> ssrc (fst (snd (kms_rtp_synchronizer_process_rtp_buffer_mapped
        (run (kms_rtp_synchronizer_new False) [SetPtClockRate 96 90000])
        (rtp_packet 5 1000 100000000)))) = 5
   \<and> ssrc (run (kms_rtp_synchronizer_new True)
              [SetPtClockRate 96 90000, ProcessRtp (rtp_packet 1 8200 100000000)]) \<noteq> 0
   \<and> rtp_ssrc (rtp_packet 2 4600 100000001)
      \<noteq> ssrc (run (kms_rtp_synchronizer_new True)
              [SetPtClockRate 96 90000, ProcessRtp (rtp_packet 1 8200 100000000)])
   \<and> kms_rtp_synchronizer_process_rtp_buffer_mapped
        (run (run (kms_rtp_synchronizer_new True)
              [SetPtClockRate 96 90000, ProcessRtp (rtp_packet 1 8200 100000000)])
           [ProcessRtp (rtp_packet 1 4600 100000001)])
        (rtp_packet 2 4600 100000001)
      = (Some KMS_RTP_SYNC_INVALID_DATA,
         run (run (kms_rtp_synchronizer_new True)
              [SetPtClockRate 96 90000, ProcessRtp (rtp_packet 1 8200 100000000)])
           [ProcessRtp (rtp_packet 1 4600 100000001)],
         100000001)"
  using ssrc_fixed_once_nonzero
    [of "run (kms_rtp_synchronizer_new False) [SetPtClockRate 96 90000]"
        "rtp_packet 5 1000 100000000"]
    ssrc_fixed_once_nonzero
    [of "run (kms_rtp_synchronizer_new True)
              [SetPtClockRate 96 90000, ProcessRtp (rtp_packet 1 8200 100000000)]"
        "rtp_packet 2 4600 100000001" "[ProcessRtp (rtp_packet 1 4600 100000001)]"]
  unfolding ex_state_demoted ex_state_sorted ex_state_configured
  by (simp add: run_defs)


subsection \<open>Saturation of the PTS\<close>

text \<open>C1, as stated, fails. The table's rows saturate high only when
  \<open>d > 2^64 - 1 - p\<close> and leave \<open>p + d\<close> otherwise; the code sets the PTS to
  \<open>2^64 - 1\<close> on every addition made while \<^verbatim>\<open>wrapped_up\<close> is set (line 337). With
  \<^verbatim>\<open>base_sync_time\<close> \<open>2^64 - 10\<close> and the last Sender Report 15 ns after the base one, the
  NTP step leaves PTS 5 with \<^verbatim>\<open>wrapped_up\<close> set; a packet one second of RTP time after
  the Sender Report gets \<open>2^64 - 1\<close>, where the table gives \<open>5 + 10^9\<close>.\<close>

theorem spec_table_fails_when_wrapped_up:
  "ntp_offset_step (run (kms_rtp_synchronizer_new False)
     [SetPtClockRate 96 90000,
      ProcessRtcp (Some ([GST_RTCP_TYPE_SR 1 0 0], 18446744073709551606)),
      ProcessRtcp (Some ([GST_RTCP_TYPE_SR 1 65 0], 0))]) = (5, False, True)
   \<and> snd (snd (kms_rtp_synchronizer_process_rtp_buffer_mapped
       (run (kms_rtp_synchronizer_new False)
         [SetPtClockRate 96 90000,
          ProcessRtcp (Some ([GST_RTCP_TYPE_SR 1 0 0], 18446744073709551606)),
          ProcessRtcp (Some ([GST_RTCP_TYPE_SR 1 65 0], 0))])
       (rtp_packet 1 90000 0))) = 18446744073709551615
   \<and> diff_rtp_time
       ((run (kms_rtp_synchronizer_new False)
         [SetPtClockRate 96 90000,
          ProcessRtcp (Some ([GST_RTCP_TYPE_SR 1 0 0], 18446744073709551606)),
          ProcessRtcp (Some ([GST_RTCP_TYPE_SR 1 65 0], 0))])\<lparr>rtp_ext_ts := 90000\<rparr>)
       90000 0 = 1000000000
   \<and> uint (kms_rtp_synchronizer_rtp_diff_full
       ((run (kms_rtp_synchronizer_new False)
         [SetPtClockRate 96 90000,
          ProcessRtcp (Some ([GST_RTCP_TYPE_SR 1 0 0], 18446744073709551606)),
          ProcessRtcp (Some ([GST_RTCP_TYPE_SR 1 65 0], 0))])\<lparr>rtp_ext_ts := 90000\<rparr>)
       5 90000 0 False True) = 18446744073709551615
   \<and> spec_table_adjust True 5 1000000000 False True = 1000000005"
  unfolding ex_state_wrapped_up
  by (simp add: run_defs diff_rtp_time_def spec_table_adjust_def)

text \<open>C1, amended. With \<open>d\<close> the magnitude \<open>diff_rtp_time\<close> and \<open>p\<close> the PTS so far,
  \<^verbatim>\<open>kms_rtp_synchronizer_rtp_diff_full\<close> gives, read as integers:
  \<^item> on an addition: \<open>2^64 - 1\<close> whenever \<^verbatim>\<open>wrapped_up\<close> is set; else, with
    \<^verbatim>\<open>wrapped_down\<close> set, 0 if \<open>d < 2^64 - 1 - p\<close> and \<open>p + d - 2^64\<close> (the earlier wrap
    undone) if \<open>d > 2^64 - 1 - p\<close>; with no flag set, \<open>p + d\<close> capped at \<open>2^64 - 1\<close>;
  \<^item> on a subtraction: 0 whenever \<^verbatim>\<open>wrapped_down\<close> is set; else, with \<^verbatim>\<open>wrapped_up\<close>
    set, \<open>2^64 - 1\<close> if \<open>d < p\<close> and \<open>p - d + 2^64\<close> if \<open>d > p\<close>; with no flag set,
    \<open>p - d\<close> floored at 0;
  \<^item> when the two extended timestamps are equal: 0 if \<^verbatim>\<open>wrapped_down\<close>, else \<open>2^64 - 1\<close>
    if \<^verbatim>\<open>wrapped_up\<close>, else \<open>p\<close>.
  The NTP step adds or subtracts modulo \<open>2^64\<close> and sets \<^verbatim>\<open>wrapped_down\<close> exactly when
  the exact value is negative, \<^verbatim>\<open>wrapped_up\<close> exactly when it exceeds \<open>2^64 - 1\<close>. Together:
  after a Sender Report the computed PTS is the exact value \<open>exact_sync_pts\<close> clamped to
  \<open>[0, 2^64 - 1]\<close>. The two boundary cases (\<open>d = 2^64 - 1 - p\<close> on an addition after a
  wrap down, \<open>d = p\<close> on a subtraction after a wrap up, that is an exact value of \<open>-1\<close>
  or \<open>2^64\<close>) are left out.\<close>

theorem pts_saturation_contract:
  "(b < rtp_ext_ts s
      \<and> \<not> (wd \<and> \<not> wu \<and> uint (diff_rtp_time s rate b) = 18446744073709551615 - uint p) \<longrightarrow>
      uint (kms_rtp_synchronizer_rtp_diff_full s p rate b wd wu) =
        (if wu then 18446744073709551615
         else if wd then
           (if uint (diff_rtp_time s rate b) < 18446744073709551615 - uint p then 0
            else uint p + uint (diff_rtp_time s rate b) - 18446744073709551616)
         else min 18446744073709551615 (uint p + uint (diff_rtp_time s rate b))))
   \<and> (rtp_ext_ts s < b
      \<and> \<not> (wu \<and> \<not> wd \<and> uint (diff_rtp_time s rate b) = uint p) \<longrightarrow>
      uint (kms_rtp_synchronizer_rtp_diff_full s p rate b wd wu) =
        (if wd then 0
         else if wu then
           (if uint (diff_rtp_time s rate b) < uint p then 18446744073709551615
            else uint p - uint (diff_rtp_time s rate b) + 18446744073709551616)
         else max 0 (uint p - uint (diff_rtp_time s rate b))))
   \<and> (rtp_ext_ts s = b \<longrightarrow>
      uint (kms_rtp_synchronizer_rtp_diff_full s p rate b wd wu) =
        (if wd then 0 else if wu then 18446744073709551615 else uint p))
   \<and> fst (snd (ntp_offset_step s)) = (exact_ntp_pts s < 0)
   \<and> snd (snd (ntp_offset_step s)) = (18446744073709551615 < exact_ntp_pts s)
   \<and> uint (fst (ntp_offset_step s)) =
       (if exact_ntp_pts s < 0 then exact_ntp_pts s + 18446744073709551616
        else if 18446744073709551615 < exact_ntp_pts s
        then exact_ntp_pts s - 18446744073709551616
        else exact_ntp_pts s)
   \<and> (base_initiated s
      \<and> \<not> (exact_sync_pts s = 18446744073709551616 \<and> rtp_ext_ts s < last_rtcp_ext_ts s)
      \<and> \<not> (exact_sync_pts s = - 1 \<and> last_rtcp_ext_ts s < rtp_ext_ts s) \<longrightarrow>
      uint (snd (compute_pts s ext pts)) =
        max 0 (min 18446744073709551615 (exact_sync_pts s)))"
proof (intro conjI impI)
  assume "b < rtp_ext_ts s
      \<and> \<not> (wd \<and> \<not> wu \<and> uint (diff_rtp_time s rate b) = 18446744073709551615 - uint p)"
  then show "uint (kms_rtp_synchronizer_rtp_diff_full s p rate b wd wu) =
        (if wu then 18446744073709551615
         else if wd then
           (if uint (diff_rtp_time s rate b) < 18446744073709551615 - uint p then 0
            else uint p + uint (diff_rtp_time s rate b) - 18446744073709551616)
         else min 18446744073709551615 (uint p + uint (diff_rtp_time s rate b)))"
    by (auto simp add: diff_full_add)
next
  assume "rtp_ext_ts s < b
      \<and> \<not> (wu \<and> \<not> wd \<and> uint (diff_rtp_time s rate b) = uint p)"
  then show "uint (kms_rtp_synchronizer_rtp_diff_full s p rate b wd wu) =
        (if wd then 0
         else if wu then
           (if uint (diff_rtp_time s rate b) < uint p then 18446744073709551615
            else uint p - uint (diff_rtp_time s rate b) + 18446744073709551616)
         else max 0 (uint p - uint (diff_rtp_time s rate b)))"
    by (auto simp add: diff_full_sub)
next
  assume "rtp_ext_ts s = b"
  then show "uint (kms_rtp_synchronizer_rtp_diff_full s p rate b wd wu) =
        (if wd then 0 else if wu then 18446744073709551615 else uint p)"
    by (rule diff_full_eq)
next
  show "fst (snd (ntp_offset_step s)) = (exact_ntp_pts s < 0)"
    "snd (snd (ntp_offset_step s)) = (18446744073709551615 < exact_ntp_pts s)"
    "uint (fst (ntp_offset_step s)) =
       (if exact_ntp_pts s < 0 then exact_ntp_pts s + 18446744073709551616
        else if 18446744073709551615 < exact_ntp_pts s
        then exact_ntp_pts s - 18446744073709551616
        else exact_ntp_pts s)"
    by (rule ntp_step_int)+
next
  assume "base_initiated s
      \<and> \<not> (exact_sync_pts s = 18446744073709551616 \<and> rtp_ext_ts s < last_rtcp_ext_ts s)
      \<and> \<not> (exact_sync_pts s = - 1 \<and> last_rtcp_ext_ts s < rtp_ext_ts s)"
  then show "uint (snd (compute_pts s ext pts)) =
        max 0 (min 18446744073709551615 (exact_sync_pts s))"
    using sync_pts_exact [of s ext pts] by blast
qed

theorem pts_saturation_contract_witness:
  "(0 :: guint64) < rtp_ext_ts ((kms_rtp_synchronizer_new False)\<lparr>rtp_ext_ts := 90000\<rparr>)
   \<and> uint (kms_rtp_synchronizer_rtp_diff_full
        ((kms_rtp_synchronizer_new False)\<lparr>rtp_ext_ts := 90000\<rparr>) 5 90000 0 False True)
      = 18446744073709551615
   \<and> rtp_ext_ts ((kms_rtp_synchronizer_new False)\<lparr>rtp_ext_ts := 0\<rparr>) < (90000 :: guint64)
   \<and> uint (kms_rtp_synchronizer_rtp_diff_full
        ((kms_rtp_synchronizer_new False)\<lparr>rtp_ext_ts := 0\<rparr>) 10 90000 90000 False False)
      = 0
   \<and> base_initiated (run (kms_rtp_synchronizer_new False)
        [SetPtClockRate 96 90000,
         ProcessRtcp (Some ([GST_RTCP_TYPE_SR 1 4294967296 8200], 10)),
         ProcessRtcp (Some ([GST_RTCP_TYPE_SR 1 0 8200], 20)),
         ProcessRtp (rtp_packet 1 8200 7)])
   \<and> exact_sync_pts (run (kms_rtp_synchronizer_new False)
        [SetPtClockRate 96 90000,
         ProcessRtcp (Some ([GST_RTCP_TYPE_SR 1 4294967296 8200], 10)),
         ProcessRtcp (Some ([GST_RTCP_TYPE_SR 1 0 8200], 20)),
         ProcessRtp (rtp_packet 1 8200 7)]) = - 999999990
   \<and> snd (compute_pts (run (kms_rtp_synchronizer_new False)
        [SetPtClockRate 96 90000,
         ProcessRtcp (Some ([GST_RTCP_TYPE_SR 1 4294967296 8200], 10)),
         ProcessRtcp (Some ([GST_RTCP_TYPE_SR 1 0 8200], 20)),
         ProcessRtp (rtp_packet 1 8200 7)]) 8200 7) = 0"
  using pts_saturation_contract
      [where s = "(kms_rtp_synchronizer_new False)\<lparr>rtp_ext_ts := 90000\<rparr>"
         and b = 0 and wd = False and wu = True and rate = 90000 and p = 5]
    pts_saturation_contract
      [where s = "(kms_rtp_synchronizer_new False)\<lparr>rtp_ext_ts := 0\<rparr>"
         and b = 90000 and wd = False and wu = False and rate = 90000 and p = 10]
    pts_saturation_contract
      [where s = "run (kms_rtp_synchronizer_new False)
        [SetPtClockRate 96 90000,
         ProcessRtcp (Some ([GST_RTCP_TYPE_SR 1 4294967296 8200], 10)),
         ProcessRtcp (Some ([GST_RTCP_TYPE_SR 1 0 8200], 20)),
         ProcessRtp (rtp_packet 1 8200 7)]"
         and b = 8200 and wd = False and wu = False and rate = 90000 and p = 7
         and ext = 8200 and pts = 7]
  unfolding ex_state_saturate_low
  by (simp add: run_defs diff_rtp_time_def exact_sync_pts_def exact_ntp_pts_def
        kms_rtp_synchronizer_new_def)


subsection \<open>Monotonic output in sorted mode\<close>

text \<open>C5, as stated, fails. \<^verbatim>\<open>GST_CLOCK_TIME_IS_VALID\<close> takes a recorded
  \<^verbatim>\<open>fs_last_pts\<close> of \<open>2^64 - 1\<close> for "nothing recorded", and \<open>2^64 - 1\<close> is also the
  value a PTS saturates at. In sorted mode, a first packet arriving with PTS
  \<open>2^64 - 2\<close> and a second one 3600 ticks later are given \<open>2^64 - 2\<close> and \<open>2^64 - 1\<close>;
  a third packet with the second one's timestamp, arriving with PTS 100, keeps 100.
  All three calls succeed and the synchronizer stays in sorted mode.\<close>

theorem saturated_pts_breaks_sorted_order:
  "emitted_sorted (kms_rtp_synchronizer_new True)
     [SetPtClockRate 96 90000,
      ProcessRtp (rtp_packet 1 1000 18446744073709551614),
      ProcessRtp (rtp_packet 1 4600 0),
      ProcessRtp (rtp_packet 1 4600 100)]
     = [18446744073709551614, 18446744073709551615, 100]
   \<and> feeded_sorted (run (kms_rtp_synchronizer_new True)
     [SetPtClockRate 96 90000,
      ProcessRtp (rtp_packet 1 1000 18446744073709551614),
      ProcessRtp (rtp_packet 1 4600 0),
      ProcessRtp (rtp_packet 1 4600 100)])
   \<and> \<not> sorted [18446744073709551614 :: GstClockTime, 18446744073709551615, 100]"
  by (simp add: run_defs)

text \<open>C5, amended. From a state of sorted mode in which a PTS is recorded
  (\<^verbatim>\<open>fs_last_pts\<close> is not \<open>2^64 - 1\<close>), through every sequence of calls \<open>es\<close>: as long
  as none of the PTS values emitted by the successful calls in sorted mode is
  \<open>2^64 - 1\<close>, the recorded PTS followed by these values is a non-decreasing
  sequence. A computed PTS strictly below a recorded \<^verbatim>\<open>fs_last_pts\<close> is replaced by it
  before it is emitted and recorded.\<close>

theorem sorted_mode_monotone:
  "(feeded_sorted s \<and> GST_CLOCK_TIME_IS_VALID (fs_last_pts s)
      \<and> (\<forall>p \<in> set (emitted_sorted s es). GST_CLOCK_TIME_IS_VALID p) \<longrightarrow>
      sorted (fs_last_pts s # emitted_sorted s es))
   \<and> (feeded_sorted s \<and> GST_CLOCK_TIME_IS_VALID (fs_last_pts s) \<and> p < fs_last_pts s \<longrightarrow>
      sorted_fix s r p =
        (s\<lparr>fs_last_rtp_ext_ts := r, fs_last_pts := fs_last_pts s\<rparr>, fs_last_pts s))"
proof (intro conjI impI)
  assume h: "feeded_sorted s \<and> GST_CLOCK_TIME_IS_VALID (fs_last_pts s)
      \<and> (\<forall>p \<in> set (emitted_sorted s es). GST_CLOCK_TIME_IS_VALID p)"
  then have "feeded_sorted s \<longrightarrow> GST_CLOCK_TIME_IS_VALID (fs_last_pts s)" by simp
  from emitted_sorted_mono [OF this, of es] h
  show "sorted (fs_last_pts s # emitted_sorted s es)" by simp
next
  assume "feeded_sorted s \<and> GST_CLOCK_TIME_IS_VALID (fs_last_pts s) \<and> p < fs_last_pts s"
  then show "sorted_fix s r p =
        (s\<lparr>fs_last_rtp_ext_ts := r, fs_last_pts := fs_last_pts s\<rparr>, fs_last_pts s)"
    by (simp add: sorted_fix_def)
qed

theorem sorted_mode_monotone_witness:
  "feeded_sorted (run (kms_rtp_synchronizer_new True)
     [SetPtClockRate 96 90000, ProcessRtp (rtp_packet 1 8200 100000000)])
   \<and> fs_last_pts (run (kms_rtp_synchronizer_new True)
     [SetPtClockRate 96 90000, ProcessRtp (rtp_packet 1 8200 100000000)]) = 100000000
   \<and> emitted_sorted (run (kms_rtp_synchronizer_new True)
       [SetPtClockRate 96 90000, ProcessRtp (rtp_packet 1 8200 100000000)])
       [ProcessRtp (rtp_packet 1 11800 5),
        ProcessRtcp (Some ([GST_RTCP_TYPE_SR 1 0 8200], 0)),
        ProcessRtp (rtp_packet 1 15400 6)]
     = [140000000, 140000000]
   \<and> sorted (fs_last_pts (run (kms_rtp_synchronizer_new True)
         [SetPtClockRate 96 90000, ProcessRtp (rtp_packet 1 8200 100000000)])
       # emitted_sorted (run (kms_rtp_synchronizer_new True)
         [SetPtClockRate 96 90000, ProcessRtp (rtp_packet 1 8200 100000000)])
         [ProcessRtp (rtp_packet 1 11800 5),
          ProcessRtcp (Some ([GST_RTCP_TYPE_SR 1 0 8200], 0)),
          ProcessRtp (rtp_packet 1 15400 6)])
   \<and> sorted_fix (run (kms_rtp_synchronizer_new True)
       [SetPtClockRate 96 90000, ProcessRtp (rtp_packet 1 8200 100000000)]) 11800 40000000
     = ((run (kms_rtp_synchronizer_new True)
          [SetPtClockRate 96 90000, ProcessRtp (rtp_packet 1 8200 100000000)])
          \<lparr>fs_last_rtp_ext_ts := 11800, fs_last_pts := 100000000\<rparr>, 100000000)"
  using sorted_mode_monotone
    [where s = "run (kms_rtp_synchronizer_new True)
       [SetPtClockRate 96 90000, ProcessRtp (rtp_packet 1 8200 100000000)]"
       and es = "[ProcessRtp (rtp_packet 1 11800 5),
        ProcessRtcp (Some ([GST_RTCP_TYPE_SR 1 0 8200], 0)),
        ProcessRtp (rtp_packet 1 15400 6)]"
       and p = 40000000 and r = 11800]
  unfolding ex_state_sorted
  by (simp add: run_defs)


subsection \<open>Interpolated PTS\<close>

text \<open>C2, as stated, fails where the sum leaves the range of a PTS. In unsorted mode,
  after a first packet with RTP timestamp 1000 that arrived with PTS 5000000 (5 ms), a
  packet with RTP timestamp 100 (900 ticks, 10 ms, earlier) would get
  \<open>5000000 - 10000000\<close>; the call succeeds and the PTS written is 0.\<close>

theorem interpolation_saturates_at_zero:
  "\<not> base_initiated (run (kms_rtp_synchronizer_new False)
       [SetPtClockRate 96 90000, ProcessRtp (rtp_packet 1 1000 5000000)])
   \<and> base_interpolate_initiated (run (kms_rtp_synchronizer_new False)
       [SetPtClockRate 96 90000, ProcessRtp (rtp_packet 1 1000 5000000)])
   \<and> exact_interpolated_pts (run (kms_rtp_synchronizer_new False)
         [SetPtClockRate 96 90000, ProcessRtp (rtp_packet 1 1000 5000000)])
       (ext_of (run (kms_rtp_synchronizer_new False)
         [SetPtClockRate 96 90000, ProcessRtp (rtp_packet 1 1000 5000000)])
         (rtp_packet 1 100 5000001)) = - 5000000
   \<and> fst (kms_rtp_synchronizer_process_rtp_buffer_mapped
       (run (kms_rtp_synchronizer_new False)
         [SetPtClockRate 96 90000, ProcessRtp (rtp_packet 1 1000 5000000)])
       (rtp_packet 1 100 5000001)) = None
   \<and> uint (snd (snd (kms_rtp_synchronizer_process_rtp_buffer_mapped
       (run (kms_rtp_synchronizer_new False)
         [SetPtClockRate 96 90000, ProcessRtp (rtp_packet 1 1000 5000000)])
       (rtp_packet 1 100 5000001)))) = 0"
  unfolding ex_state_early
  by (simp add: run_defs exact_interpolated_pts_def)

text \<open>C2, amended. In every state reached from a new synchronizer by any sequence of
  calls, while no Sender Report has been processed and the interpolation anchor is
  set, an accepted packet with extended timestamp \<open>r\<close> gets the PTS
  \<open>base_interpolate_pts + sgn (r - base) * (|r - base| * 10^9 div clock_rate)\<close> clamped
  to \<open>[0, 2^64 - 1]\<close>: that value itself when it is in the range, 0 when it is
  negative. In unsorted mode this holds with no further condition; in sorted mode
  it holds for clock rates below \<open>10^9\<close> and values below \<open>2^64 - 1\<close> (a PTS of
  \<open>2^64 - 1\<close> is recorded as "no PTS", and with a faster clock a packet whose extended
  timestamp is \<open>2^64 - 1\<close> can be recorded with a smaller PTS, to which the next
  packet is then raised). The call succeeds, unless it is the one that demotes the
  synchronizer from sorted mode. In particular, at 90 kHz, packets with RTP timestamps 1000, 4600 and 8200 arriving
  with PTS 100000000, 100000001 and 100000002 are given 100000000, 140000000 and
  180000000.\<close>

theorem interpolation_pts:
  "(s = run (kms_rtp_synchronizer_new fs) es
      \<and> \<not> base_initiated s \<and> base_interpolate_initiated s \<and> accepts s buf
      \<and> (feeded_sorted s \<longrightarrow>
            sint (clock_rate s) < 1000000000
            \<and> exact_interpolated_pts s (ext_of s buf) < 18446744073709551615) \<longrightarrow>
      fst (kms_rtp_synchronizer_process_rtp_buffer_mapped s buf)
        = (if feeded_sorted s \<and> GST_CLOCK_TIME_IS_VALID (fs_last_rtp_ext_ts s)
              \<and> ext_of s buf < fs_last_rtp_ext_ts s
           then Some KMS_RTP_SYNC_INVALID_DATA else None)
      \<and> uint (snd (snd (kms_rtp_synchronizer_process_rtp_buffer_mapped s buf)))
        = max 0 (min 18446744073709551615 (exact_interpolated_pts s (ext_of s buf))))
   \<and> emitted_sorted (kms_rtp_synchronizer_new True)
        [SetPtClockRate 96 90000,
         ProcessRtp (rtp_packet 1 1000 100000000),
         ProcessRtp (rtp_packet 1 4600 100000001),
         ProcessRtp (rtp_packet 1 8200 100000002)]
      = [100000000, 140000000, 180000000]"
proof (intro conjI impI)
  assume h: "s = run (kms_rtp_synchronizer_new fs) es
      \<and> \<not> base_initiated s \<and> base_interpolate_initiated s \<and> accepts s buf
      \<and> (feeded_sorted s \<longrightarrow>
            sint (clock_rate s) < 1000000000
            \<and> exact_interpolated_pts s (ext_of s buf) < 18446744073709551615)"
  then have acc: "accepts s buf" and ni: "\<not> base_initiated s"
    and ii: "base_interpolate_initiated s"
    and sr: "s = run (kms_rtp_synchronizer_new fs) es"
    and cr: "feeded_sorted s \<longrightarrow> sint (clock_rate s) < 1000000000"
    and x: "feeded_sorted s \<longrightarrow>
              exact_interpolated_pts s (ext_of s buf) < 18446744073709551615" by blast+
  from acc have c: "0 < sint (clock_rate s)" by (simp add: accepts_def)
  have "interp_inv s" unfolding sr by (rule run_interp_inv [OF new_interp_inv])
  with ni ii cr have inv: "feeded_sorted s \<longrightarrow>
        sint (clock_rate s) < 1000000000
        \<and> uint (base_interpolate_ext_ts s) < 4294967296
        \<and> fs_last_pts s = interpolate s (fs_last_rtp_ext_ts s)"
    by (auto simp add: interp_inv_def)
  note u = interpolate_exact [OF c, of "ext_of s buf"]
  have v: "feeded_sorted s \<longrightarrow> GST_CLOCK_TIME_IS_VALID (interpolate s (ext_of s buf))"
  proof
    assume "feeded_sorted s"
    with x have "exact_interpolated_pts s (ext_of s buf) < 18446744073709551615" by simp
    then have "uint (interpolate s (ext_of s buf)) \<noteq> uint GST_CLOCK_TIME_NONE"
      unfolding u by (simp add: GST_CLOCK_TIME_NONE_def max_def min_def)
    then show "GST_CLOCK_TIME_IS_VALID (interpolate s (ext_of s buf))"
      by (auto simp add: GST_CLOCK_TIME_IS_VALID_def)
  qed
  from interpolated_emitted [OF acc ni ii inv v] u
  show "uint (snd (snd (kms_rtp_synchronizer_process_rtp_buffer_mapped s buf)))
        = max 0 (min 18446744073709551615 (exact_interpolated_pts s (ext_of s buf)))" by simp
  show "fst (kms_rtp_synchronizer_process_rtp_buffer_mapped s buf)
        = (if feeded_sorted s \<and> GST_CLOCK_TIME_IS_VALID (fs_last_rtp_ext_ts s)
              \<and> ext_of s buf < fs_last_rtp_ext_ts s
           then Some KMS_RTP_SYNC_INVALID_DATA else None)"
    by (simp add: rtp_accept [OF acc] Let_def)
next
  show "emitted_sorted (kms_rtp_synchronizer_new True)
        [SetPtClockRate 96 90000,
         ProcessRtp (rtp_packet 1 1000 100000000),
         ProcessRtp (rtp_packet 1 4600 100000001),
         ProcessRtp (rtp_packet 1 8200 100000002)]
      = [100000000, 140000000, 180000000]"
    by (simp add: run_defs)
qed

theorem interpolation_pts_witness:
  "\<not> base_initiated (run (kms_rtp_synchronizer_new True)
       [SetPtClockRate 96 90000, ProcessRtp (rtp_packet 1 1000 100000000)])
   \<and> base_interpolate_initiated (run (kms_rtp_synchronizer_new True)
       [SetPtClockRate 96 90000, ProcessRtp (rtp_packet 1 1000 100000000)])
   \<and> accepts (run (kms_rtp_synchronizer_new True)
       [SetPtClockRate 96 90000, ProcessRtp (rtp_packet 1 1000 100000000)])
       (rtp_packet 1 4600 100000001)
   \<and> feeded_sorted (run (kms_rtp_synchronizer_new True)
       [SetPtClockRate 96 90000, ProcessRtp (rtp_packet 1 1000 100000000)])
   \<and> sint (clock_rate (run (kms_rtp_synchronizer_new True)
       [SetPtClockRate 96 90000, ProcessRtp (rtp_packet 1 1000 100000000)])) < 1000000000
   \<and> exact_interpolated_pts (run (kms_rtp_synchronizer_new True)
         [SetPtClockRate 96 90000, ProcessRtp (rtp_packet 1 1000 100000000)])
       (ext_of (run (kms_rtp_synchronizer_new True)
         [SetPtClockRate 96 90000, ProcessRtp (rtp_packet 1 1000 100000000)])
         (rtp_packet 1 4600 100000001)) = 140000000
   \<and> kms_rtp_synchronizer_process_rtp_buffer_mapped
       (run (kms_rtp_synchronizer_new True)
         [SetPtClockRate 96 90000, ProcessRtp (rtp_packet 1 1000 100000000)])
       (rtp_packet 1 4600 100000001)
     = (None,
        run (kms_rtp_synchronizer_new True)
         [SetPtClockRate 96 90000, ProcessRtp (rtp_packet 1 1000 100000000),
          ProcessRtp (rtp_packet 1 4600 100000001)],
        140000000)"
  using interpolation_pts
    [where s = "run (kms_rtp_synchronizer_new True)
         [SetPtClockRate 96 90000, ProcessRtp (rtp_packet 1 1000 100000000)]"
       and fs = True
       and es = "[SetPtClockRate 96 90000, ProcessRtp (rtp_packet 1 1000 100000000)]"
       and buf = "rtp_packet 1 4600 100000001"]
  unfolding ex_state_s1
  by (simp add: run_defs exact_interpolated_pts_def)


subsection \<open>The extended-timestamp tracker\<close>

text \<open>C3, as stated, fails: the counter is 64 bits wide and the additions are
  modulo \<open>2^64\<close>. The sequence of \<open>2^34 + 1\<close> timestamps that starts at 0 and advances
  by \<open>2^30\<close> ticks each time ascends strictly in the sense of the claim, and its
  extended timestamps start at 0 and are 0 again at the last sample.\<close>

theorem extended_counter_wraps_at_2_64:
  "ascending32 (ramp 0 17179869185)
   \<and> \<not> sorted_wrt (<) (ext_timestamps GST_CLOCK_TIME_NONE (ramp 0 17179869185))"
proof
  show "ascending32 (ramp 0 17179869185)" by (rule ascending32_ramp)
  have n: "(17179869185 :: nat) = Suc 17179869184" by simp
  have out: "ext_timestamps GST_CLOCK_TIME_NONE (ramp 0 17179869185) = ramp64 0 17179869185"
    unfolding n by (rule ext_timestamps_ramp0)
  have a: "ramp64 0 17179869185 ! 0 = 0"
    using ramp64_nth [of 0 17179869185 0] by simp
  have b: "ramp64 0 17179869185 ! 17179869184 = 0"
    using ramp64_nth [of 17179869184 17179869185 0] by simp
  show "\<not> sorted_wrt (<) (ext_timestamps GST_CLOCK_TIME_NONE (ramp 0 17179869185))"
  proof
    assume "sorted_wrt (<) (ext_timestamps GST_CLOCK_TIME_NONE (ramp 0 17179869185))"
    then have "sorted_wrt (<) (ramp64 0 17179869185)" by (simp only: out)
    from sorted_wrt_nth_less [OF this, of 0 17179869184]
    have "ramp64 0 17179869185 ! 0 < ramp64 0 17179869185 ! 17179869184"
      by (simp add: ramp64_length)
    then show False by (simp only: a b less_irrefl)
  qed
qed


text \<open>C3, amended. With the stored counter unset (\<open>2^64 - 1\<close>, as before the first
  call) the tracker returns and stores the 32-bit timestamp zero-extended. With any
  other stored counter \<open>e\<close> it returns and stores \<open>e\<close> plus the signed 32-bit difference
  between the timestamp and the low 32 bits of \<open>e\<close>, modulo \<open>2^64\<close>. Consequently, for
  every 32-bit sequence of at most \<open>2^33\<close> samples that ascends strictly (each
  sample ahead of the one before by more than 0 and less than \<open>2^31\<close> ticks, modulo
  \<open>2^32\<close>), fed from the unset state: there is one extended timestamp per sample, the
  extended timestamps ascend strictly, each difference of two successive ones is the
  32-bit difference of the two samples, and the first one is the first sample
  zero-extended.\<close>

theorem extended_timestamp_ascending:
  "gst_rtp_buffer_ext_timestamp GST_CLOCK_TIME_NONE t = (ucast t, ucast t)
   \<and> (e \<noteq> GST_CLOCK_TIME_NONE \<longrightarrow>
        gst_rtp_buffer_ext_timestamp e t
          = (e + scast (t - ucast e), e + scast (t - ucast e))
        \<and> uint (snd (gst_rtp_buffer_ext_timestamp e t))
          = (uint e + sint (t - ucast e)) mod 18446744073709551616)
   \<and> (ascending32 ts \<and> length ts \<le> 8589934592 \<longrightarrow>
        length (ext_timestamps GST_CLOCK_TIME_NONE ts) = length ts
        \<and> sorted_wrt (<) (ext_timestamps GST_CLOCK_TIME_NONE ts)
        \<and> (\<forall>i. Suc i < length ts \<longrightarrow>
              uint (ext_timestamps GST_CLOCK_TIME_NONE ts ! Suc i)
                - uint (ext_timestamps GST_CLOCK_TIME_NONE ts ! i)
              = uint (ts ! Suc i - ts ! i))
        \<and> (ts \<noteq> [] \<longrightarrow> ext_timestamps GST_CLOCK_TIME_NONE ts ! 0 = ucast (ts ! 0)))"
proof (intro conjI impI)
  show "gst_rtp_buffer_ext_timestamp GST_CLOCK_TIME_NONE t = (ucast t, ucast t)"
    by (simp add: gst_rtp_buffer_ext_timestamp_def)
next
  assume ne: "e \<noteq> GST_CLOCK_TIME_NONE"
  then show r: "gst_rtp_buffer_ext_timestamp e t
          = (e + scast (t - ucast e), e + scast (t - ucast e))"
    by (simp add: gst_rtp_buffer_ext_timestamp_def Let_def)
  show "uint (snd (gst_rtp_buffer_ext_timestamp e t))
          = (uint e + sint (t - ucast e)) mod 18446744073709551616"
    unfolding r snd_conv by (rule ext_add_mod)
next
  assume "ascending32 ts \<and> length ts \<le> 8589934592"
  then have a: "ascending32 ts" and l: "length ts \<le> 8589934592" by simp_all
  note g = ext_timestamps_first [OF a l]
  from g show "length (ext_timestamps GST_CLOCK_TIME_NONE ts) = length ts" by blast
  from g show "sorted_wrt (<) (ext_timestamps GST_CLOCK_TIME_NONE ts)" by blast
  from g show "\<forall>i. Suc i < length ts \<longrightarrow>
              uint (ext_timestamps GST_CLOCK_TIME_NONE ts ! Suc i)
                - uint (ext_timestamps GST_CLOCK_TIME_NONE ts ! i)
              = uint (ts ! Suc i - ts ! i)" by blast
  assume "ts \<noteq> []"
  with g show "ext_timestamps GST_CLOCK_TIME_NONE ts ! 0 = ucast (ts ! 0)" by blast
qed

theorem extended_timestamp_ascending_witness:
  "(4294967280 :: guint64) \<noteq> GST_CLOCK_TIME_NONE
   \<and> gst_rtp_buffer_ext_timestamp 4294967280 16 = (4294967312, 4294967312)
   \<and> ascending32 [4294967280, 16, 48]
   \<and> length [4294967280 :: guint32, 16, 48] \<le> 8589934592
   \<and> ext_timestamps GST_CLOCK_TIME_NONE [4294967280, 16, 48]
        = [4294967280, 4294967312, 4294967344]
   \<and> sorted_wrt (<) (ext_timestamps GST_CLOCK_TIME_NONE [4294967280, 16, 48])"
  using extended_timestamp_ascending
    [where e = 4294967280 and t = 16 and ts = "[4294967280, 16, 48]"]
  by (simp add: gst_rtp_buffer_ext_timestamp_def GST_CLOCK_TIME_NONE_def Let_def)

end
